theory Spec2Isabelle
  imports Complex_Main
begin

section \<open>Values\<close>

subsection \<open>float64\<close>

text \<open>
  A float64 is a finite value, an infinity or NaN. Finite values are kept as the real
  number they denote; rounding of arithmetic results to the nearest representable value
  and the sign of zero are not modelled. Comparison, \<open>math.Min\<close> and \<open>math.Max\<close> do not
  round, so on them the model is exact.
\<close>

datatype float64 = Fin real | PInf | NInf | NaN

definition MaxFloat64 :: real where
  "MaxFloat64 = 2 ^ 1024 - 2 ^ 971"

text \<open>Go's \<open>x < y\<close> on float64: false whenever an operand is NaN.\<close>

fun flt :: "float64 \<Rightarrow> float64 \<Rightarrow> bool" where
  "flt (Fin a) (Fin b) = (a < b)"
| "flt (Fin a) PInf = True"
| "flt NInf (Fin b) = True"
| "flt NInf PInf = True"
| "flt _ _ = False"

text \<open>Go's \<open>x <= y\<close> on float64.\<close>

definition fle :: "float64 \<Rightarrow> float64 \<Rightarrow> bool" where
  "fle x y = (x \<noteq> NaN \<and> y \<noteq> NaN \<and> (flt x y \<or> x = y))"

text \<open>
  \<open>math.Min\<close> and \<open>math.Max\<close> of Go's standard library, with their special cases in the
  library's order: an infinity of the right sign wins, then NaN, then the comparison.
\<close>

definition math_Min :: "float64 \<Rightarrow> float64 \<Rightarrow> float64" where
  "math_Min x y =
     (if x = NInf \<or> y = NInf then NInf
      else if x = NaN \<or> y = NaN then NaN
      else if flt x y then x else y)"

definition math_Max :: "float64 \<Rightarrow> float64 \<Rightarrow> float64" where
  "math_Max x y =
     (if x = PInf \<or> y = PInf then PInf
      else if x = NaN \<or> y = NaN then NaN
      else if flt y x then x else y)"

definition math_IsInf :: "float64 \<Rightarrow> bool" where
  "math_IsInf f = (f = PInf \<or> f = NInf)"

definition math_IsNaN :: "float64 \<Rightarrow> bool" where
  "math_IsNaN f = (f = NaN)"

text \<open>
  An exact result as a float64, with the overflow of IEEE-754 round-to-nearest: from
  half a unit in the last place above the largest finite value on it is an infinity,
  below that and above the largest finite value it is the largest finite value.
\<close>

definition OverflowThreshold :: real where
  "OverflowThreshold = 2 ^ 1024 - 2 ^ 970"

definition to_float64 :: "real \<Rightarrow> float64" where
  "to_float64 r =
     (if OverflowThreshold \<le> r then PInf
      else if r \<le> - OverflowThreshold then NInf
      else if MaxFloat64 < r then Fin MaxFloat64
      else if r < - MaxFloat64 then Fin (- MaxFloat64)
      else Fin r)"

fun fsub :: "float64 \<Rightarrow> float64 \<Rightarrow> float64" where
  "fsub (Fin a) (Fin b) = to_float64 (a - b)"
| "fsub NaN y = NaN"
| "fsub x NaN = NaN"
| "fsub PInf PInf = NaN"
| "fsub NInf NInf = NaN"
| "fsub PInf y = PInf"
| "fsub NInf y = NInf"
| "fsub (Fin a) PInf = NInf"
| "fsub (Fin a) NInf = PInf"

subsection \<open>Box\<close>

record Box =
  Top :: int
  Left :: int
  Right :: int
  Bottom :: int

definition Box_zero :: Box where
  "Box_zero = \<lparr>Top = 0, Left = 0, Right = 0, Bottom = 0\<rparr>"

text \<open>
  Modelled from the spec: the methods of Box (box.go is not among the sources). The spec:
  a Box is ``an axis-aligned rectangle in pixel space (top, left, right, bottom), with
  derived width/height''; ``Boxes are grown to enclose label/annotation footprints and
  then constrained back within an outer bound''; ``the constraint shrinks the inner
  canvas box by exactly the amount consumed by labels''.
\<close>

definition Box_Clone :: "Box \<Rightarrow> Box" where
  "Box_Clone b = b"

definition Box_Width :: "Box \<Rightarrow> int" where
  "Box_Width b = Right b - Left b"

definition Box_Height :: "Box \<Rightarrow> int" where
  "Box_Height b = Bottom b - Top b"

definition Box_Grow :: "Box \<Rightarrow> Box \<Rightarrow> Box" where
  "Box_Grow b other =
     \<lparr>Top = min (Top b) (Top other), Left = min (Left b) (Left other),
      Right = max (Right b) (Right other), Bottom = max (Bottom b) (Bottom other)\<rparr>"

definition Box_OuterConstrain :: "Box \<Rightarrow> Box \<Rightarrow> Box \<Rightarrow> Box" where
  "Box_OuterConstrain b bounds other =
     \<lparr>Top = (if Top other < Top bounds then Top b + (Top bounds - Top other) else Top b),
      Left = (if Left other < Left bounds then Left b + (Left bounds - Left other) else Left b),
      Right = (if Right bounds < Right other then Right b - (Right other - Right bounds)
               else Right b),
      Bottom = (if Bottom bounds < Bottom other then Bottom b - (Bottom other - Bottom bounds)
                else Bottom b)\<rparr>"

subsection \<open>Style, Tick, Range\<close>

type_synonym Color = nat
type_synonym Font = nat

record Style =
  Show :: bool
  Padding :: Box
  StrokeWidth :: float64
  StrokeColor :: Color
  FillColor :: Color
  Font :: "Font option"
  FontSize :: float64
  FontColor :: Color

text \<open>The zero value of the struct: what a Go composite literal leaves unset.\<close>

definition Style_zero :: Style where
  "Style_zero =
     \<lparr>Show = False, Padding = Box_zero, StrokeWidth = Fin 0, StrokeColor = 0, FillColor = 0,
      Font = None, FontSize = Fin 0, FontColor = 0\<rparr>"

record Tick =
  Value :: float64
  Label :: string

type_synonym ValueFormatter = "(float64 \<Rightarrow> string) option"

text \<open>
  A Range is an interface value: nil, or a pointer to a range object. The one
  implementation chart.go names is \<open>*ContinuousRange\<close>; a pointer is an address of the
  store below.
\<close>

record ContinuousRange =
  MinR :: float64
  MaxR :: float64
  DomainR :: int

type_synonym Range = nat

record store =
  cells :: "Range \<Rightarrow> ContinuousRange"
  nxt :: nat

definition ContinuousRange_zero :: ContinuousRange where
  "ContinuousRange_zero = \<lparr>MinR = Fin 0, MaxR = Fin 0, DomainR = 0\<rparr>"

text \<open>\<open>&ContinuousRange{}\<close>: a fresh zero range object.\<close>

definition new_ContinuousRange :: "store \<Rightarrow> Range \<times> store" where
  "new_ContinuousRange st =
     (nxt st, st\<lparr>cells := (cells st)(nxt st := ContinuousRange_zero), nxt := Suc (nxt st)\<rparr>)"

text \<open>
  Modelled from the spec: the methods of ContinuousRange (range.go is not among the
  sources). The spec: a Range ``holds minimum, maximum, and a pixel-length domain'';
  ``Derived quantity delta = maximum - minimum''; ``A Range is considered unresolved
  (zero) until both bounds are set''. The setters write through the pointer: chart.go
  calls them as statements and reads the object afterwards.
\<close>

definition GetMin :: "Range \<Rightarrow> store \<Rightarrow> float64" where
  "GetMin p st = MinR (cells st p)"

definition GetMax :: "Range \<Rightarrow> store \<Rightarrow> float64" where
  "GetMax p st = MaxR (cells st p)"

definition GetDomain :: "Range \<Rightarrow> store \<Rightarrow> int" where
  "GetDomain p st = DomainR (cells st p)"

definition GetDelta :: "Range \<Rightarrow> store \<Rightarrow> float64" where
  "GetDelta p st = fsub (MaxR (cells st p)) (MinR (cells st p))"

definition IsZero :: "Range \<Rightarrow> store \<Rightarrow> bool" where
  "IsZero p st = (cells st p = ContinuousRange_zero)"

definition SetMin :: "Range \<Rightarrow> float64 \<Rightarrow> store \<Rightarrow> store" where
  "SetMin p v st = st\<lparr>cells := (cells st)(p := (cells st p)\<lparr>MinR := v\<rparr>)\<rparr>"

definition SetMax :: "Range \<Rightarrow> float64 \<Rightarrow> store \<Rightarrow> store" where
  "SetMax p v st = st\<lparr>cells := (cells st)(p := (cells st p)\<lparr>MaxR := v\<rparr>)\<rparr>"

definition SetDomain :: "Range \<Rightarrow> int \<Rightarrow> store \<Rightarrow> store" where
  "SetDomain p d st = st\<lparr>cells := (cells st)(p := (cells st p)\<lparr>DomainR := d\<rparr>)\<rparr>"

subsection \<open>Axes, series, chart\<close>

text \<open>
  Modelled from the spec: the axis tag (its declaration is not among the sources). The
  spec: ``Each series declares which Y axis (primary or secondary) it targets''.
\<close>

datatype YAxisType = YAxisPrimary | YAxisSecondary

text \<open>
  The fields of the axis structs that chart.go reads. A YAxis has the fields of an XAxis
  and its kind tag.
\<close>

record XAxis =
  Style :: Style
  ValueFormatter :: ValueFormatter
  Range_f :: "Range option"
  Ticks :: "Tick list"

record YAxis = XAxis +
  AxisType :: YAxisType

text \<open>
  A Series is an interface value with optional capabilities, each probed by a type
  assertion: a field is \<open>None\<close> when the series does not have the capability. A value
  provider's \<open>Len\<close> and \<open>GetValue\<close> are the list of its points.
\<close>

record Series =
  GetStyle :: Style
  GetYAxis :: YAxisType
  BoundedValueProvider :: "(float64 \<times> float64 \<times> float64) list option"
  ValueProvider :: "(float64 \<times> float64) list option"
  ValueFormatterProvider :: "(ValueFormatter \<times> ValueFormatter) option"
  isAnnotationSeries :: bool

type_synonym Renderable = nat

record Chart =
  Title :: string
  TitleStyle :: Style
  Width :: int
  Height :: int
  DPI :: float64
  Background :: Style
  Canvas :: Style
  XAxis :: XAxis
  YAxis :: YAxis
  YAxisSecondary_c :: YAxis
  Font :: "Font option"
  defaultFont :: "Font option"
  Series :: "Series list"
  Elements :: "Renderable list"


subsection \<open>Errors, renderer calls, collaborators\<close>

datatype error = Error string

text \<open>
  The calls \<open>Render\<close> makes on the renderer provider, on the renderer it returns and on the
  drawing code outside chart.go, in the order they are made. \<open>NewRenderer\<close> is the call of
  the provider; \<open>DrawBox\<close> is \<open>Draw.Box\<close>; the axis, series and element events are the
  \<open>Render\<close> methods of the axes and series and the calls of the overlay elements; \<open>SaveCall\<close>
  is \<open>r.Save(w)\<close>, the one call that writes to the output sink.
\<close>

datatype event =
    NewRenderer int int
  | SetDPI float64
  | DrawBox Box Style
  | XAxisRender XAxis Box Range Style "Tick list"
  | YAxisRender YAxis Box Range Style "Tick list"
  | SeriesRender Series Box Range Range Style
  | SetFont "Font option"
  | SetFontColor Color
  | SetFontSize float64
  | MeasureTextCall string
  | Text string int int
  | ElementCall Renderable Box Style
  | SaveCall

text \<open>
  What chart.go uses and the sources do not hold: the constants of the defaults, the
  methods of Style and of its padding, the rounding helpers of \<open>Math\<close>, tick generation
  and measurement of the axes and of annotation series, the default font and the
  renderer's text measurement and serialisation. They are parameters of the model; the
  renderer's answers may depend on the calls made on it so far. An axis or a series is
  handed the range object as it stands at the call.
\<close>

record env =
  DefaultDPI :: float64
  DefaultChartWidth :: int
  DefaultChartHeight :: int
  DefaultBackgroundPadding :: Box
  DefaultTitleTop :: int
  DefaultTitleFontSize :: float64
  DefaultTextColor :: Color
  DefaultBackgroundColor :: Color
  DefaultBackgroundStrokeColor :: Color
  DefaultBackgroundStrokeWidth :: float64
  DefaultCanvasColor :: Color
  DefaultCanvasStrokeColor :: Color
  DefaultCanvasStrokeWidth :: float64
  DefaultSeriesLineWidth :: float64
  DefaultFontSize :: float64
  DefaultAxisColor :: Color
  DefaultAxisFontSize :: float64
  DefaultAxisLineWidth :: float64
  GetDefaultColor :: "int \<Rightarrow> Color"
  Style_IsZero :: "Style \<Rightarrow> bool"
  Style_InheritFrom :: "Style \<Rightarrow> Style \<Rightarrow> Style"
  Style_GetFont :: "Style \<Rightarrow> Font option \<Rightarrow> Font option"
  Style_GetFontColor :: "Style \<Rightarrow> Color \<Rightarrow> Color"
  Style_GetFontSize :: "Style \<Rightarrow> float64 \<Rightarrow> float64"
  Box_GetTop :: "Box \<Rightarrow> int \<Rightarrow> int"
  Box_GetLeft :: "Box \<Rightarrow> int \<Rightarrow> int"
  Box_GetRight :: "Box \<Rightarrow> int \<Rightarrow> int"
  Box_GetBottom :: "Box \<Rightarrow> int \<Rightarrow> int"
  Math_GetRoundToForDelta :: "float64 \<Rightarrow> float64"
  Math_RoundDown :: "float64 \<Rightarrow> float64 \<Rightarrow> float64"
  Math_RoundUp :: "float64 \<Rightarrow> float64 \<Rightarrow> float64"
  XAxis_GetTicks :: "XAxis \<Rightarrow> ContinuousRange \<Rightarrow> Style \<Rightarrow> ValueFormatter \<Rightarrow> Tick list"
  YAxis_GetTicks :: "YAxis \<Rightarrow> ContinuousRange \<Rightarrow> Style \<Rightarrow> ValueFormatter \<Rightarrow> Tick list"
  XAxis_Measure :: "XAxis \<Rightarrow> Box \<Rightarrow> ContinuousRange \<Rightarrow> Style \<Rightarrow> Tick list \<Rightarrow> Box"
  YAxis_Measure :: "YAxis \<Rightarrow> Box \<Rightarrow> ContinuousRange \<Rightarrow> Style \<Rightarrow> Tick list \<Rightarrow> Box"
  AnnotationSeries_Measure ::
    "Series \<Rightarrow> Box \<Rightarrow> ContinuousRange \<Rightarrow> ContinuousRange \<Rightarrow> Style \<Rightarrow> Box"
  GetDefaultFont :: "error + Font option"
  MeasureText :: "event list \<Rightarrow> string \<Rightarrow> Box"
  Save :: "event list \<Rightarrow> error option"

section \<open>chart.go\<close>

subsection \<open>Getters\<close>

definition GetDPI :: "env \<Rightarrow> Chart \<Rightarrow> float64 list \<Rightarrow> float64" where
  "GetDPI E c defaults =
     (if DPI c = Fin 0 then
        (if 0 < length defaults then hd defaults else DefaultDPI E)
      else DPI c)"

definition GetFont :: "Chart \<Rightarrow> Font option" where
  "GetFont c = (if Font c = None then defaultFont c else Font c)"

definition GetWidth :: "env \<Rightarrow> Chart \<Rightarrow> int" where
  "GetWidth E c = (if Width c = 0 then DefaultChartWidth E else Width c)"

definition GetHeight :: "env \<Rightarrow> Chart \<Rightarrow> int" where
  "GetHeight E c = (if Height c = 0 then DefaultChartHeight E else Height c)"

subsection \<open>getRanges\<close>

text \<open>The running extremes of the scan over the series (lines 149-153).\<close>

record extremes =
  minx :: float64
  maxx :: float64
  miny :: float64
  maxy :: float64
  minya :: float64
  maxya :: float64
  seriesMappedToSecondaryAxis :: bool

definition extremes_init :: extremes where
  "extremes_init =
     \<lparr>minx = Fin MaxFloat64, maxx = Fin (- MaxFloat64),
      miny = Fin MaxFloat64, maxy = Fin (- MaxFloat64),
      minya = Fin MaxFloat64, maxya = Fin (- MaxFloat64),
      seriesMappedToSecondaryAxis = False\<rparr>"

text \<open>The loop over the points of a bounded value provider (lines 162-180).\<close>

fun scanBoundedValues ::
  "YAxisType \<Rightarrow> (float64 \<times> float64 \<times> float64) list \<Rightarrow> extremes \<Rightarrow> extremes" where
  "scanBoundedValues seriesAxis [] e = e"
| "scanBoundedValues seriesAxis ((vx, vy1, vy2) # ps) e =
     scanBoundedValues seriesAxis ps
       (let e1 = e\<lparr>minx := math_Min (minx e) vx, maxx := math_Max (maxx e) vx\<rparr> in
        if seriesAxis = YAxisPrimary then
          e1\<lparr>miny := math_Min (math_Min (miny e1) vy1) vy2,
             maxy := math_Max (math_Max (maxy e1) vy1) vy2\<rparr>
        else if seriesAxis = YAxisSecondary then
          e1\<lparr>minya := math_Min (math_Min (minya e1) vy1) vy2,
             maxya := math_Max (math_Max (maxya e1) vy1) vy2,
             seriesMappedToSecondaryAxis := True\<rparr>
        else e1)"

text \<open>The loop over the points of a value provider (lines 183-197).\<close>

fun scanValues :: "YAxisType \<Rightarrow> (float64 \<times> float64) list \<Rightarrow> extremes \<Rightarrow> extremes" where
  "scanValues seriesAxis [] e = e"
| "scanValues seriesAxis ((vx, vy) # ps) e =
     scanValues seriesAxis ps
       (let e1 = e\<lparr>minx := math_Min (minx e) vx, maxx := math_Max (maxx e) vx\<rparr> in
        if seriesAxis = YAxisPrimary then
          e1\<lparr>miny := math_Min (miny e1) vy, maxy := math_Max (maxy e1) vy\<rparr>
        else if seriesAxis = YAxisSecondary then
          e1\<lparr>minya := math_Min (minya e1) vy, maxya := math_Max (maxya e1) vy,
             seriesMappedToSecondaryAxis := True\<rparr>
        else e1)"

text \<open>The loop over the series (lines 157-200).\<close>

fun scanSeries :: "env \<Rightarrow> Series list \<Rightarrow> extremes \<Rightarrow> extremes" where
  "scanSeries E [] e = e"
| "scanSeries E (s # ss) e =
     scanSeries E ss
       (if Style_IsZero E (GetStyle s) \<or> Show (GetStyle s) then
          (case BoundedValueProvider s of
             Some bvp \<Rightarrow> scanBoundedValues (GetYAxis s) bvp e
           | None \<Rightarrow>
               (case ValueProvider s of
                  Some vp \<Rightarrow> scanValues (GetYAxis s) vp e
                | None \<Rightarrow> e))
        else e)"

text \<open>The loop over a tick list (lines 221-225, 234-238, 253-257).\<close>

fun tickBounds :: "Tick list \<Rightarrow> float64 \<times> float64 \<Rightarrow> float64 \<times> float64" where
  "tickBounds [] b = b"
| "tickBounds (t # ts) (tickMin, tickMax) =
     tickBounds ts (math_Min tickMin (Value t), math_Max tickMax (Value t))"

text \<open>
  \<open>getRanges\<close> returns the three range objects and the store it leaves: the objects of
  the caller's axis configuration are written in place.
\<close>

definition getRanges :: "env \<Rightarrow> Chart \<Rightarrow> store \<Rightarrow> Range \<times> Range \<times> Range \<times> store" where
  "getRanges E c st0 =
     (let e = scanSeries E (Series c) extremes_init;
          (xrange, st1) =
             (case Range_f (XAxis c) of None \<Rightarrow> new_ContinuousRange st0 | Some p \<Rightarrow> (p, st0));
          (yrange, st2) =
             (case Range_f (YAxis c) of None \<Rightarrow> new_ContinuousRange st1 | Some p \<Rightarrow> (p, st1));
          (yrangeAlt, st3) =
             (case Range_f (YAxisSecondary_c c) of
                None \<Rightarrow> new_ContinuousRange st2 | Some p \<Rightarrow> (p, st2));
          st4 =
             (if 0 < length (Ticks (XAxis c)) then
                (let (tickMin, tickMax) =
                       tickBounds (Ticks (XAxis c)) (Fin MaxFloat64, Fin (- MaxFloat64))
                 in SetMax xrange tickMax (SetMin xrange tickMin st3))
              else if IsZero xrange st3 then
                SetMax xrange (maxx e) (SetMin xrange (minx e) st3)
              else st3);
          st5 =
             (if 0 < length (Ticks (YAxis c)) then
                (let (tickMin, tickMax) =
                       tickBounds (Ticks (YAxis c)) (Fin MaxFloat64, Fin (- MaxFloat64))
                 in SetMax yrange tickMax (SetMin yrange tickMin st4))
              else if IsZero yrange st4 then
                (let s = SetMax yrange (maxy e) (SetMin yrange (miny e) st4);
                     delta = GetDelta yrange s;
                     roundTo = Math_GetRoundToForDelta E delta;
                     rmin = Math_RoundDown E (GetMin yrange s) roundTo;
                     rmax = Math_RoundUp E (GetMax yrange s) roundTo
                 in SetMax yrange rmax (SetMin yrange rmin s))
              else st4);
          st6 =
             (if 0 < length (Ticks (YAxisSecondary_c c)) then
                (let (tickMin, tickMax) =
                       tickBounds (Ticks (YAxis c)) (Fin MaxFloat64, Fin (- MaxFloat64))
                 in SetMax yrangeAlt tickMax (SetMin yrangeAlt tickMin st5))
              else if seriesMappedToSecondaryAxis e \<and> IsZero yrangeAlt st5 then
                (let s = SetMax yrangeAlt (maxya e) (SetMin yrangeAlt (minya e) st5);
                     delta = GetDelta yrangeAlt s;
                     roundTo = Math_GetRoundToForDelta E delta;
                     rmin = Math_RoundDown E (GetMin yrangeAlt s) roundTo;
                     rmax = Math_RoundUp E (GetMax yrangeAlt s) roundTo
                 in SetMax yrangeAlt rmax (SetMin yrangeAlt rmin s))
              else st5)
      in (xrange, yrange, yrangeAlt, st6))"

subsection \<open>checkRanges, hasSecondarySeries\<close>

fun hasSecondarySeries_loop :: "Series list \<Rightarrow> bool" where
  "hasSecondarySeries_loop [] = False"
| "hasSecondarySeries_loop (s # ss) =
     (if GetYAxis s = YAxisSecondary then True else hasSecondarySeries_loop ss)"

definition hasSecondarySeries :: "Chart \<Rightarrow> bool" where
  "hasSecondarySeries c = hasSecondarySeries_loop (Series c)"

definition checkRanges :: "Chart \<Rightarrow> Range \<Rightarrow> Range \<Rightarrow> Range \<Rightarrow> store \<Rightarrow> error option" where
  "checkRanges c xr yr yra st =
     (if math_IsInf (GetDelta xr st) \<or> math_IsNaN (GetDelta xr st) \<or> GetDelta xr st = Fin 0 then
        Some (Error ''Invalid (infinite or NaN) x-range delta'')
      else if math_IsInf (GetDelta yr st) \<or> math_IsNaN (GetDelta yr st)
              \<or> GetDelta yr st = Fin 0 then
        Some (Error ''Invalid (infinite or NaN) y-range delta'')
      else if hasSecondarySeries c
              \<and> (math_IsInf (GetDelta yra st) \<or> math_IsNaN (GetDelta yra st)
                   \<or> GetDelta yra st = Fin 0) then
        Some (Error ''Invalid (infinite or NaN) y-secondary-range delta'')
      else None)"

subsection \<open>getValueFormatters\<close>

fun getValueFormatters_loop ::
  "Series list \<Rightarrow> ValueFormatter \<times> ValueFormatter \<times> ValueFormatter
     \<Rightarrow> ValueFormatter \<times> ValueFormatter \<times> ValueFormatter" where
  "getValueFormatters_loop [] acc = acc"
| "getValueFormatters_loop (s # ss) (x, y, ya) =
     getValueFormatters_loop ss
       (case ValueFormatterProvider s of
          Some (sx, sy) \<Rightarrow>
            (if GetYAxis s = YAxisPrimary then (sx, sy, ya)
             else if GetYAxis s = YAxisSecondary then (sx, y, sy)
             else (x, y, ya))
        | None \<Rightarrow> (x, y, ya))"

definition getValueFormatters :: "Chart \<Rightarrow> ValueFormatter \<times> ValueFormatter \<times> ValueFormatter" where
  "getValueFormatters c =
     (let (x, y, ya) = getValueFormatters_loop (Series c) (None, None, None);
          x = (if ValueFormatter (XAxis c) \<noteq> None then ValueFormatter (XAxis c) else x);
          y = (if ValueFormatter (YAxis c) \<noteq> None then ValueFormatter (YAxis c) else y);
          ya = (if ValueFormatter (YAxisSecondary_c c) \<noteq> None
                then ValueFormatter (YAxisSecondary_c c) else ya)
      in (x, y, ya))"


subsection \<open>Style defaults and the chart's bounds\<close>

definition styleDefaultsBackground :: "env \<Rightarrow> Chart \<Rightarrow> Style" where
  "styleDefaultsBackground E c =
     Style_zero\<lparr>FillColor := DefaultBackgroundColor E,
                StrokeColor := DefaultBackgroundStrokeColor E,
                StrokeWidth := DefaultBackgroundStrokeWidth E\<rparr>"

definition styleDefaultsCanvas :: "env \<Rightarrow> Chart \<Rightarrow> Style" where
  "styleDefaultsCanvas E c =
     Style_zero\<lparr>FillColor := DefaultCanvasColor E,
                StrokeColor := DefaultCanvasStrokeColor E,
                StrokeWidth := DefaultCanvasStrokeWidth E\<rparr>"

definition styleDefaultsSeries :: "env \<Rightarrow> Chart \<Rightarrow> int \<Rightarrow> Style" where
  "styleDefaultsSeries E c seriesIndex =
     (let strokeColor = GetDefaultColor E seriesIndex in
      Style_zero\<lparr>StrokeColor := strokeColor,
                 StrokeWidth := DefaultSeriesLineWidth E,
                 Style.Font := GetFont c,
                 FontSize := DefaultFontSize E\<rparr>)"

definition styleDefaultsAxes :: "env \<Rightarrow> Chart \<Rightarrow> Style" where
  "styleDefaultsAxes E c =
     Style_zero\<lparr>Style.Font := GetFont c,
                FontColor := DefaultAxisColor E,
                FontSize := DefaultAxisFontSize E,
                StrokeColor := DefaultAxisColor E,
                StrokeWidth := DefaultAxisLineWidth E\<rparr>"

definition styleDefaultsElements :: "env \<Rightarrow> Chart \<Rightarrow> Style" where
  "styleDefaultsElements E c = Style_zero\<lparr>Style.Font := GetFont c\<rparr>"

definition getBackgroundStyle :: "env \<Rightarrow> Chart \<Rightarrow> Style" where
  "getBackgroundStyle E c = Style_InheritFrom E (Background c) (styleDefaultsBackground E c)"

definition getCanvasStyle :: "env \<Rightarrow> Chart \<Rightarrow> Style" where
  "getCanvasStyle E c = Style_InheritFrom E (Canvas c) (styleDefaultsCanvas E c)"

text \<open>\<open>Chart.Box\<close>: the chart's bounds inside the background padding.\<close>

definition Chart_Box :: "env \<Rightarrow> Chart \<Rightarrow> Box" where
  "Chart_Box E c =
     (let dpr = Box_GetRight E (Padding (Background c)) (Right (DefaultBackgroundPadding E));
          dpb = Box_GetBottom E (Padding (Background c)) (Bottom (DefaultBackgroundPadding E))
      in \<lparr>Top = Box_GetTop E (Padding (Background c)) (Top (DefaultBackgroundPadding E)),
          Left = Box_GetLeft E (Padding (Background c)) (Left (DefaultBackgroundPadding E)),
          Right = GetWidth E c - dpr,
          Bottom = GetHeight E c - dpb\<rparr>)"

definition getDefaultCanvasBox :: "env \<Rightarrow> Chart \<Rightarrow> Box" where
  "getDefaultCanvasBox E c = Chart_Box E c"

subsection \<open>Layout\<close>

definition hasAxes :: "Chart \<Rightarrow> bool" where
  "hasAxes c =
     (Show (Style (XAxis c)) \<or> Show (Style (YAxis c)) \<or> Show (Style (YAxisSecondary_c c)))"

text \<open>A tick slice that is not assigned stays nil: the empty list.\<close>

definition getAxesTicks ::
  "env \<Rightarrow> Chart \<Rightarrow> Range \<Rightarrow> Range \<Rightarrow> Range \<Rightarrow> ValueFormatter \<Rightarrow> ValueFormatter \<Rightarrow> ValueFormatter
     \<Rightarrow> store \<Rightarrow> Tick list \<times> Tick list \<times> Tick list" where
  "getAxesTicks E c xr yr yar xf yf yfa st =
     (let xticks = (if Show (Style (XAxis c))
                    then XAxis_GetTicks E (XAxis c) (cells st xr) (styleDefaultsAxes E c) xf
                    else []);
          yticks = (if Show (Style (YAxis c))
                    then YAxis_GetTicks E (YAxis c) (cells st yr) (styleDefaultsAxes E c) yf
                    else []);
          yticksAlt = (if Show (Style (YAxisSecondary_c c))
                       then YAxis_GetTicks E (YAxisSecondary_c c) (cells st yar)
                              (styleDefaultsAxes E c) yfa
                       else [])
      in (xticks, yticks, yticksAlt))"

definition getAxesAdjustedCanvasBox ::
  "env \<Rightarrow> Chart \<Rightarrow> Box \<Rightarrow> Range \<Rightarrow> Range \<Rightarrow> Range \<Rightarrow> Tick list \<Rightarrow> Tick list \<Rightarrow> Tick list
     \<Rightarrow> store \<Rightarrow> Box" where
  "getAxesAdjustedCanvasBox E c canvasBox xr yr yra xticks yticks yticksAlt st =
     (let axesOuterBox0 = Box_Clone canvasBox;
          axesOuterBox1 =
            (if Show (Style (XAxis c)) then
               Box_Grow axesOuterBox0
                 (XAxis_Measure E (XAxis c) canvasBox (cells st xr) (styleDefaultsAxes E c) xticks)
             else axesOuterBox0);
          axesOuterBox2 =
            (if Show (Style (YAxis c)) then
               Box_Grow axesOuterBox1
                 (YAxis_Measure E (YAxis c) canvasBox (cells st yr) (styleDefaultsAxes E c) yticks)
             else axesOuterBox1);
          axesOuterBox3 =
            (if Show (Style (YAxisSecondary_c c)) then
               Box_Grow axesOuterBox2
                 (YAxis_Measure E (YAxisSecondary_c c) canvasBox (cells st yra)
                    (styleDefaultsAxes E c) yticksAlt)
             else axesOuterBox2)
      in Box_OuterConstrain canvasBox (Chart_Box E c) axesOuterBox3)"

definition setRangeDomains ::
  "Box \<Rightarrow> Range \<Rightarrow> Range \<Rightarrow> Range \<Rightarrow> store \<Rightarrow> Range \<times> Range \<times> Range \<times> store" where
  "setRangeDomains canvasBox xr yr yra st =
     (xr, yr, yra,
      SetDomain yra (Box_Height canvasBox)
        (SetDomain yr (Box_Height canvasBox)
           (SetDomain xr (Box_Width canvasBox) st)))"

fun hasAnnotationSeries_loop :: "env \<Rightarrow> Series list \<Rightarrow> bool" where
  "hasAnnotationSeries_loop E [] = False"
| "hasAnnotationSeries_loop E (s # ss) =
     (if isAnnotationSeries s \<and> (Style_IsZero E (GetStyle s) \<or> Show (GetStyle s)) then True
      else hasAnnotationSeries_loop E ss)"

definition hasAnnotationSeries :: "env \<Rightarrow> Chart \<Rightarrow> bool" where
  "hasAnnotationSeries E c = hasAnnotationSeries_loop E (Series c)"

text \<open>
  The loop of \<open>getAnnotationAdjustedCanvasBox\<close> (lines 383-397), with the index of the
  series at the head of the list. The bounds of an annotation start as the zero Box.
\<close>

fun getAnnotationAdjustedCanvasBox_loop ::
  "env \<Rightarrow> Chart \<Rightarrow> Box \<Rightarrow> Range \<Rightarrow> Range \<Rightarrow> Range \<Rightarrow> store \<Rightarrow> int \<Rightarrow> Series list \<Rightarrow> Box
     \<Rightarrow> Box" where
  "getAnnotationAdjustedCanvasBox_loop E c canvasBox xr yr yra st seriesIndex [] box = box"
| "getAnnotationAdjustedCanvasBox_loop E c canvasBox xr yr yra st seriesIndex (s # ss) box =
     getAnnotationAdjustedCanvasBox_loop E c canvasBox xr yr yra st (seriesIndex + 1) ss
       (if isAnnotationSeries s \<and> (Style_IsZero E (GetStyle s) \<or> Show (GetStyle s)) then
          (let style = styleDefaultsSeries E c seriesIndex;
               annotationBounds =
                 (if GetYAxis s = YAxisPrimary then
                    AnnotationSeries_Measure E s canvasBox (cells st xr) (cells st yr) style
                  else if GetYAxis s = YAxisSecondary then
                    AnnotationSeries_Measure E s canvasBox (cells st xr) (cells st yra) style
                  else Box_zero)
           in Box_Grow box annotationBounds)
        else box)"

definition getAnnotationAdjustedCanvasBox ::
  "env \<Rightarrow> Chart \<Rightarrow> Box \<Rightarrow> Range \<Rightarrow> Range \<Rightarrow> Range \<Rightarrow> store \<Rightarrow> Box" where
  "getAnnotationAdjustedCanvasBox E c canvasBox xr yr yra st =
     (let annotationSeriesBox =
            getAnnotationAdjustedCanvasBox_loop E c canvasBox xr yr yra st 0 (Series c)
              (Box_Clone canvasBox)
      in Box_OuterConstrain canvasBox (Chart_Box E c) annotationSeriesBox)"

subsection \<open>Drawing\<close>

text \<open>Each drawing function returns the calls it makes, in order.\<close>

definition drawBackground :: "env \<Rightarrow> Chart \<Rightarrow> event list" where
  "drawBackground E c =
     [DrawBox (Box_zero\<lparr>Right := GetWidth E c, Bottom := GetHeight E c\<rparr>)
        (getBackgroundStyle E c)]"

definition drawCanvas :: "env \<Rightarrow> Chart \<Rightarrow> Box \<Rightarrow> event list" where
  "drawCanvas E c canvasBox = [DrawBox canvasBox (getCanvasStyle E c)]"

definition drawAxes ::
  "env \<Rightarrow> Chart \<Rightarrow> Box \<Rightarrow> Range \<Rightarrow> Range \<Rightarrow> Range \<Rightarrow> Tick list \<Rightarrow> Tick list \<Rightarrow> Tick list
     \<Rightarrow> event list" where
  "drawAxes E c canvasBox xrange yrange yrangeAlt xticks yticks yticksAlt =
     (if Show (Style (XAxis c))
      then [XAxisRender (XAxis c) canvasBox xrange (styleDefaultsAxes E c) xticks] else [])
     @ (if Show (Style (YAxis c))
        then [YAxisRender (YAxis c) canvasBox yrange (styleDefaultsAxes E c) yticks] else [])
     @ (if Show (Style (YAxisSecondary_c c))
        then [YAxisRender (YAxisSecondary_c c) canvasBox yrangeAlt (styleDefaultsAxes E c)
                yticksAlt]
        else [])"

definition drawSeries ::
  "env \<Rightarrow> Chart \<Rightarrow> Box \<Rightarrow> Range \<Rightarrow> Range \<Rightarrow> Range \<Rightarrow> Series \<Rightarrow> int \<Rightarrow> event list" where
  "drawSeries E c canvasBox xrange yrange yrangeAlt s seriesIndex =
     (if Style_IsZero E (GetStyle s) \<or> Show (GetStyle s) then
        (if GetYAxis s = YAxisPrimary then
           [SeriesRender s canvasBox xrange yrange (styleDefaultsSeries E c seriesIndex)]
         else if GetYAxis s = YAxisSecondary then
           [SeriesRender s canvasBox xrange yrangeAlt (styleDefaultsSeries E c seriesIndex)]
         else [])
      else [])"

text \<open>The loop over the series in \<open>Render\<close> (lines 124-126).\<close>

fun drawSeries_loop ::
  "env \<Rightarrow> Chart \<Rightarrow> Box \<Rightarrow> Range \<Rightarrow> Range \<Rightarrow> Range \<Rightarrow> int \<Rightarrow> Series list \<Rightarrow> event list" where
  "drawSeries_loop E c canvasBox xr yr yra index [] = []"
| "drawSeries_loop E c canvasBox xr yr yra index (series # ss) =
     drawSeries E c canvasBox xr yr yra series index
     @ drawSeries_loop E c canvasBox xr yr yra (index + 1) ss"

text \<open>
  \<open>drawTitle\<close>, given the calls made on the renderer before it. \<open>>> 1\<close> on a Go int is
  the floor of the half.
\<close>

definition drawTitle :: "env \<Rightarrow> Chart \<Rightarrow> event list \<Rightarrow> event list" where
  "drawTitle E c before =
     (if 0 < length (Title c) \<and> Show (TitleStyle c) then
        (let titleFontSize = Style_GetFontSize E (TitleStyle c) (DefaultTitleFontSize E);
             sets = [SetFont (Style_GetFont E (TitleStyle c) (GetFont c)),
                     SetFontColor (Style_GetFontColor E (TitleStyle c) (DefaultTextColor E)),
                     SetFontSize titleFontSize];
             textBox = MeasureText E (before @ sets) (Title c);
             textWidth = Box_Width textBox;
             textHeight = Box_Height textBox;
             titleX = (GetWidth E c div 2) - (textWidth div 2);
             titleY = Box_GetTop E (Padding (TitleStyle c)) (DefaultTitleTop E) + textHeight
         in sets @ [MeasureTextCall (Title c), Text (Title c) titleX titleY])
      else [])"

text \<open>The loop over the overlay elements (lines 130-132).\<close>

fun drawElements :: "env \<Rightarrow> Chart \<Rightarrow> Box \<Rightarrow> Renderable list \<Rightarrow> event list" where
  "drawElements E c canvasBox [] = []"
| "drawElements E c canvasBox (a # as) =
     ElementCall a canvasBox (styleDefaultsElements E c) # drawElements E c canvasBox as"

subsection \<open>Render\<close>

text \<open>
  One cycle of lines 106-108, which lines 111-113 repeat: generate the ticks, measure and
  constrain the canvas box, set the range domains from the new box.
\<close>

definition axesPass ::
  "env \<Rightarrow> Chart \<Rightarrow> Range \<Rightarrow> Range \<Rightarrow> Range \<Rightarrow> ValueFormatter \<Rightarrow> ValueFormatter \<Rightarrow> ValueFormatter
     \<Rightarrow> Box \<times> store \<Rightarrow> (Tick list \<times> Tick list \<times> Tick list) \<times> Box \<times> store" where
  "axesPass E c xr yr yra xf yf yfa bs =
     (let (canvasBox, st) = bs;
          (xt, yt, yta) = getAxesTicks E c xr yr yra xf yf yfa st;
          canvasBox' = getAxesAdjustedCanvasBox E c canvasBox xr yr yra xt yt yta st;
          (xr', yr', yra', st') = setRangeDomains canvasBox' xr yr yra st
      in ((xt, yt, yta), canvasBox', st'))"

text \<open>Lines 92 and 105-114: no pass when no axis is shown, else the cycle twice.\<close>

definition axesLayout ::
  "env \<Rightarrow> Chart \<Rightarrow> Range \<Rightarrow> Range \<Rightarrow> Range \<Rightarrow> ValueFormatter \<Rightarrow> ValueFormatter \<Rightarrow> ValueFormatter
     \<Rightarrow> Box \<times> store \<Rightarrow> (Tick list \<times> Tick list \<times> Tick list) \<times> Box \<times> store" where
  "axesLayout E c xr yr yra xf yf yfa bs =
     (if hasAxes c then
        (let (ts, bs') = axesPass E c xr yr yra xf yf yfa bs
         in axesPass E c xr yr yra xf yf yfa bs')
      else (([], [], []), bs))"

text \<open>
  Lines 105-120: the ticks, the canvas box and the store after the axis passes and the
  annotation pass.
\<close>

definition layout ::
  "env \<Rightarrow> Chart \<Rightarrow> Range \<Rightarrow> Range \<Rightarrow> Range \<Rightarrow> ValueFormatter \<Rightarrow> ValueFormatter \<Rightarrow> ValueFormatter
     \<Rightarrow> Box \<times> store \<Rightarrow> (Tick list \<times> Tick list \<times> Tick list) \<times> Box \<times> store" where
  "layout E c xr yr yra xf yf yfa bs =
     (let (ts1, bs1) = axesLayout E c xr yr yra xf yf yfa bs
      in if hasAnnotationSeries E c then
           (let (canvasBox, st) = bs1;
                canvasBox' = getAnnotationAdjustedCanvasBox E c canvasBox xr yr yra st;
                (xr', yr', yra', st') = setRangeDomains canvasBox' xr yr yra st
            in (getAxesTicks E c xr yr yra xf yf yfa st', canvasBox', st'))
         else (ts1, bs1))"

text \<open>
  \<open>Render\<close> has a value receiver: it works on its own copy of the chart. The result is
  the error returned (\<open>None\<close> for nil), the copy as it stands when \<open>Render\<close> returns, the
  store of range objects, and the calls made on the provider and the renderer. The
  provider answers \<open>None\<close> when it returns a renderer.
\<close>

definition Render ::
  "env \<Rightarrow> Chart \<Rightarrow> (int \<Rightarrow> int \<Rightarrow> error option) \<Rightarrow> store
     \<Rightarrow> error option \<times> Chart \<times> store \<times> event list" where
  "Render E c0 rp st0 =
     (if length (Series c0) = 0 then
        (Some (Error ''Please provide at least one series''), c0, st0, [])
      else
        (let c1 = c0\<lparr>YAxisSecondary_c := (YAxisSecondary_c c0)\<lparr>AxisType := YAxisSecondary\<rparr>\<rparr>;
             log0 = [NewRenderer (GetWidth E c1) (GetHeight E c1)]
         in case rp (GetWidth E c1) (GetHeight E c1) of
              Some err \<Rightarrow> (Some err, c1, st0, log0)
            | None \<Rightarrow>
               (case (if Chart.Font c1 = None then
                        (case GetDefaultFont E of
                           Inl err \<Rightarrow> Inl err
                         | Inr defaultFont' \<Rightarrow> Inr (c1\<lparr>defaultFont := defaultFont'\<rparr>))
                      else Inr c1) of
                  Inl err \<Rightarrow> (Some err, c1, st0, log0)
                | Inr c \<Rightarrow>
                   (let log1 = log0 @ [SetDPI (GetDPI E c [DefaultDPI E])] @ drawBackground E c;
                        (xr0, yr0, yra0, st1) = getRanges E c st0;
                        canvasBox0 = getDefaultCanvasBox E c;
                        (xf, yf, yfa) = getValueFormatters c;
                        (xr, yr, yra, st2) = setRangeDomains canvasBox0 xr0 yr0 yra0 st1
                    in case checkRanges c xr yr yra st2 of
                         Some err \<Rightarrow> (Some err, c, st2, log1 @ [SaveCall])
                       | None \<Rightarrow>
                          (let ((xt, yt, yta), canvasBox, st3) =
                                 layout E c xr yr yra xf yf yfa (canvasBox0, st2);
                               log2 = log1 @ drawCanvas E c canvasBox
                                      @ drawAxes E c canvasBox xr yr yra xt yt yta
                                      @ drawSeries_loop E c canvasBox xr yr yra 0 (Series c);
                               log3 = log2 @ drawTitle E c log2;
                               log4 = log3 @ drawElements E c canvasBox (Elements c)
                           in (Save E log4, c, st3, log4 @ [SaveCall]))))))"



subsection \<open>Names for what Render computes on the way\<close>

text \<open>
  The receiver's copy after lines 74 and 81-87 (when the font is given or loads), the
  ranges and the store after line 96, and the result of lines 105-120.
\<close>

definition Render_copy :: "env \<Rightarrow> Chart \<Rightarrow> Chart" where
  "Render_copy E c0 =
     (let c1 = c0\<lparr>YAxisSecondary_c := (YAxisSecondary_c c0)\<lparr>AxisType := YAxisSecondary\<rparr>\<rparr>
      in if Chart.Font c1 = None then
           (case GetDefaultFont E of Inl err \<Rightarrow> c1 | Inr f \<Rightarrow> c1\<lparr>defaultFont := f\<rparr>)
         else c1)"

definition Render_ranges :: "env \<Rightarrow> Chart \<Rightarrow> store \<Rightarrow> Range \<times> Range \<times> Range \<times> store" where
  "Render_ranges E c0 st0 =
     (let c = Render_copy E c0;
          (xr0, yr0, yra0, st1) = getRanges E c st0
      in setRangeDomains (getDefaultCanvasBox E c) xr0 yr0 yra0 st1)"

definition Render_layout ::
  "env \<Rightarrow> Chart \<Rightarrow> store \<Rightarrow> (Tick list \<times> Tick list \<times> Tick list) \<times> Box \<times> store" where
  "Render_layout E c0 st0 =
     (let c = Render_copy E c0;
          (xr, yr, yra, st2) = Render_ranges E c0 st0;
          (xf, yf, yfa) = getValueFormatters c
      in layout E c xr yr yra xf yf yfa (getDefaultCanvasBox E c, st2))"

text \<open>
  The calls of a render that passes the range check, before the final \<open>Save\<close>, given
  the receiver's copy, the ranges, the ticks and the canvas box (lines 76, 88-90, 122-132).
\<close>

definition Render_calls ::
  "env \<Rightarrow> Chart \<Rightarrow> Range \<Rightarrow> Range \<Rightarrow> Range \<Rightarrow> Tick list \<Rightarrow> Tick list \<Rightarrow> Tick list \<Rightarrow> Box
     \<Rightarrow> event list" where
  "Render_calls E c xr yr yra xt yt yta canvasBox =
     (let log1 = [NewRenderer (GetWidth E c) (GetHeight E c),
                  SetDPI (GetDPI E c [DefaultDPI E])]
                 @ drawBackground E c;
          log2 = log1 @ drawCanvas E c canvasBox
                 @ drawAxes E c canvasBox xr yr yra xt yt yta
                 @ drawSeries_loop E c canvasBox xr yr yra 0 (Series c);
          log3 = log2 @ drawTitle E c log2
      in log3 @ drawElements E c canvasBox (Elements c))"

text \<open>The provider returns a renderer and the font is given or loads.\<close>

definition surface_and_font :: "env \<Rightarrow> Chart \<Rightarrow> (int \<Rightarrow> int \<Rightarrow> error option) \<Rightarrow> bool" where
  "surface_and_font E c0 rp =
     (rp (GetWidth E c0) (GetHeight E c0) = None
      \<and> (if Chart.Font c0 = None then \<not> isl (GetDefaultFont E) else True))"

text \<open>A delta that \<open>checkRanges\<close> rejects: infinite, NaN or zero.\<close>

definition invalidDelta :: "float64 \<Rightarrow> bool" where
  "invalidDelta d = (math_IsInf d \<or> math_IsNaN d \<or> d = Fin 0)"

text \<open>A series is shown when its style is unset or has Show (lines 158, 434).\<close>

definition shown :: "env \<Rightarrow> Series \<Rightarrow> bool" where
  "shown E s = (Style_IsZero E (GetStyle s) \<or> Show (GetStyle s))"

subsection \<open>The drawing order of the spec\<close>

text \<open>
  The order of the calls as the spec gives it (4.3, steps 3 to 8), to be compared with
  what \<open>Render\<close> does: the surface and its DPI, the background fill, the canvas fill, the
  visible axes, each shown series in the order of the list with the range of its axis
  tag, the title if present and visible, the overlay elements, the serialisation.
\<close>

definition spec_draw_order ::
  "env \<Rightarrow> Chart \<Rightarrow> Range \<Rightarrow> Range \<Rightarrow> Range \<Rightarrow> Tick list \<Rightarrow> Tick list \<Rightarrow> Tick list \<Rightarrow> Box
     \<Rightarrow> int \<Rightarrow> int \<Rightarrow> event list" where
  "spec_draw_order E c xr yr yra xt yt yta canvasBox titleX titleY =
     [NewRenderer (GetWidth E c) (GetHeight E c),
      SetDPI (GetDPI E c [DefaultDPI E]),
      DrawBox \<lparr>Top = 0, Left = 0, Right = GetWidth E c, Bottom = GetHeight E c\<rparr>
        (getBackgroundStyle E c),
      DrawBox canvasBox (getCanvasStyle E c)]
     @ (if Show (Style (XAxis c))
        then [XAxisRender (XAxis c) canvasBox xr (styleDefaultsAxes E c) xt] else [])
     @ (if Show (Style (YAxis c))
        then [YAxisRender (YAxis c) canvasBox yr (styleDefaultsAxes E c) yt] else [])
     @ (if Show (Style (YAxisSecondary_c c))
        then [YAxisRender (YAxisSecondary_c c) canvasBox yra (styleDefaultsAxes E c) yta]
        else [])
     @ map (\<lambda>(i, s). SeriesRender s canvasBox xr
                        (if GetYAxis s = YAxisPrimary then yr else yra)
                        (styleDefaultsSeries E c (int i)))
           (filter (\<lambda>(i, s). shown E s) (enumerate 0 (Series c)))
     @ (if Title c \<noteq> [] \<and> Show (TitleStyle c)
        then [SetFont (Style_GetFont E (TitleStyle c) (GetFont c)),
              SetFontColor (Style_GetFontColor E (TitleStyle c) (DefaultTextColor E)),
              SetFontSize (Style_GetFontSize E (TitleStyle c) (DefaultTitleFontSize E)),
              MeasureTextCall (Title c),
              Text (Title c) titleX titleY]
        else [])
     @ map (\<lambda>a. ElementCall a canvasBox (styleDefaultsElements E c)) (Elements c)
     @ [SaveCall]"

subsection \<open>The range objects of a chart\<close>

text \<open>The range objects the three axis configurations of a chart point to.\<close>

definition axis_ranges :: "Chart \<Rightarrow> Range set" where
  "axis_ranges c =
     {p. Range_f (XAxis c) = Some p \<or> Range_f (YAxis c) = Some p
         \<or> Range_f (YAxisSecondary_c c) = Some p}"

subsection \<open>Margins\<close>


section \<open>Example inputs\<close>

text \<open>
  An environment for the concrete evaluations: labels take no room, explicit ticks are
  echoed, a style or a padding that is unset takes the default, and the rounding helpers
  round to multiples of a positive step.
\<close>

definition env0 :: env where
  "env0 =
     \<lparr>DefaultDPI = Fin 92, DefaultChartWidth = 1024, DefaultChartHeight = 400,
      DefaultBackgroundPadding = \<lparr>Top = 5, Left = 5, Right = 5, Bottom = 5\<rparr>,
      DefaultTitleTop = 10, DefaultTitleFontSize = Fin 18, DefaultTextColor = 1,
      DefaultBackgroundColor = 2, DefaultBackgroundStrokeColor = 3,
      DefaultBackgroundStrokeWidth = Fin 0,
      DefaultCanvasColor = 2, DefaultCanvasStrokeColor = 3, DefaultCanvasStrokeWidth = Fin 0,
      DefaultSeriesLineWidth = Fin 1, DefaultFontSize = Fin 10,
      DefaultAxisColor = 1, DefaultAxisFontSize = Fin 10, DefaultAxisLineWidth = Fin 1,
      GetDefaultColor = (\<lambda>i. nat (i mod 5)),
      Style_IsZero = (\<lambda>s. s = Style_zero),
      Style_InheritFrom = (\<lambda>s d. if s = Style_zero then d else s),
      Style_GetFont = (\<lambda>s d. if Style.Font s = None then d else Style.Font s),
      Style_GetFontColor = (\<lambda>s d. if FontColor s = 0 then d else FontColor s),
      Style_GetFontSize = (\<lambda>s d. if FontSize s = Fin 0 then d else FontSize s),
      Box_GetTop = (\<lambda>b d. if Top b = 0 then d else Top b),
      Box_GetLeft = (\<lambda>b d. if Left b = 0 then d else Left b),
      Box_GetRight = (\<lambda>b d. if Right b = 0 then d else Right b),
      Box_GetBottom = (\<lambda>b d. if Bottom b = 0 then d else Bottom b),
      Math_GetRoundToForDelta =
        (\<lambda>d. case d of Fin r \<Rightarrow> (if 100 < r then Fin 10 else if 10 < r then Fin 1 else Fin (1 / 10))
              | _ \<Rightarrow> NaN),
      Math_RoundDown =
        (\<lambda>v g. case (v, g) of
                 (Fin a, Fin b) \<Rightarrow> if 0 < b then Fin (of_int \<lfloor>a / b\<rfloor> * b) else NaN
               | _ \<Rightarrow> NaN),
      Math_RoundUp =
        (\<lambda>v g. case (v, g) of
                 (Fin a, Fin b) \<Rightarrow> if 0 < b then Fin (of_int \<lceil>a / b\<rceil> * b) else NaN
               | _ \<Rightarrow> NaN),
      XAxis_GetTicks = (\<lambda>a r s f. Ticks a),
      YAxis_GetTicks = (\<lambda>a r s f. Ticks a),
      XAxis_Measure = (\<lambda>a box r s ts. box),
      YAxis_Measure = (\<lambda>a box r s ts. box),
      AnnotationSeries_Measure = (\<lambda>a box xr yr s. box),
      GetDefaultFont = Inr (Some 1),
      MeasureText = (\<lambda>log s. \<lparr>Top = 0, Left = 0, Right = 8 * int (length s), Bottom = 12\<rparr>),
      Save = (\<lambda>log. None)\<rparr>"

definition rp_ok :: "int \<Rightarrow> int \<Rightarrow> error option" where
  "rp_ok w h = None"

definition store0 :: store where
  "store0 = \<lparr>cells = (\<lambda>p. ContinuousRange_zero), nxt = 0\<rparr>"

definition xaxis0 :: XAxis where
  "xaxis0 = \<lparr>Style = Style_zero, ValueFormatter = None, Range_f = None, Ticks = []\<rparr>"

definition yaxis0 :: YAxis where
  "yaxis0 =
     \<lparr>Style = Style_zero, ValueFormatter = None, Range_f = None, Ticks = [],
      AxisType = YAxisPrimary\<rparr>"

definition tick :: "real \<Rightarrow> string \<Rightarrow> Tick" where
  "tick v l = \<lparr>Value = Fin v, Label = l\<rparr>"

text \<open>A line series on the primary axis through (0, 0) and (1, 100), style unset.\<close>

definition series0 :: Series where
  "series0 =
     \<lparr>GetStyle = Style_zero, GetYAxis = YAxisPrimary, BoundedValueProvider = None,
      ValueProvider = Some [(Fin 0, Fin 0), (Fin 1, Fin 100)],
      ValueFormatterProvider = None, isAnnotationSeries = False\<rparr>"

text \<open>The chart with every field at its zero value but the one series.\<close>

definition chart0 :: Chart where
  "chart0 =
     \<lparr>Title = [], TitleStyle = Style_zero, Width = 0, Height = 0, DPI = Fin 0,
      Background = Style_zero, Canvas = Style_zero,
      XAxis = xaxis0, YAxis = yaxis0, YAxisSecondary_c = yaxis0,
      Font = None, defaultFont = None, Series = [series0], Elements = []\<rparr>"


text \<open>
  Ticks on both Y axes: 1 and 2 on the primary, 0, 50 and 100 on the secondary.
\<close>

definition chart_ticks :: Chart where
  "chart_ticks =
     chart0\<lparr>YAxis := yaxis0\<lparr>Ticks := [tick 1 ''1'', tick 2 ''2'']\<rparr>,
            YAxisSecondary_c :=
              yaxis0\<lparr>Ticks := [tick 0 ''0'', tick 50 ''50'', tick 100 ''100'']\<rparr>\<rparr>"

text \<open>
  A store with one range object, from 5 to 5, and a chart whose secondary axis is shown
  and has that object as its explicit range; no series is on the secondary axis.
\<close>

definition store_flat :: store where
  "store_flat =
     \<lparr>cells = (\<lambda>p. ContinuousRange_zero)(0 := \<lparr>MinR = Fin 5, MaxR = Fin 5, DomainR = 0\<rparr>),
      nxt = 1\<rparr>"

definition chart_secondary_range :: Chart where
  "chart_secondary_range =
     chart0\<lparr>YAxisSecondary_c :=
              yaxis0\<lparr>Style := Style_zero\<lparr>Show := True\<rparr>, Range_f := Some 0\<rparr>\<rparr>"

text \<open>
  Three resolved range objects: X from 0 to 1, Y from 0 to 100, secondary Y from 5 to 5.
  A chart with a second series, on the secondary axis.
\<close>

definition store_xyz :: store where
  "store_xyz =
     \<lparr>cells = (\<lambda>p. ContinuousRange_zero)
        (0 := \<lparr>MinR = Fin 0, MaxR = Fin 1, DomainR = 100\<rparr>,
         1 := \<lparr>MinR = Fin 0, MaxR = Fin 100, DomainR = 100\<rparr>,
         2 := \<lparr>MinR = Fin 5, MaxR = Fin 5, DomainR = 100\<rparr>),
      nxt = 3\<rparr>"

definition chart_two_series :: Chart where
  "chart_two_series = chart0\<lparr>Series := [series0, series0\<lparr>GetYAxis := YAxisSecondary\<rparr>]\<rparr>"

text \<open>
  Labels that need room: an axis measured as the canvas box widened to the left by the
  widest tick label, at 8 pixels a character. The chart is 114 by 114 pixels, its primary
  Y axis is shown and has a tick label of 13 characters.
\<close>

definition label_room :: "Tick list \<Rightarrow> int" where
  "label_room ts = fold (\<lambda>t w. max w (8 * int (length (Label t)))) ts 0"

definition env_wide :: env where
  "env_wide = env0\<lparr>YAxis_Measure := (\<lambda>a box r s ts. box\<lparr>Left := Left box - label_room ts\<rparr>)\<rparr>"

definition chart_wide :: Chart where
  "chart_wide =
     chart0\<lparr>Width := 114, Height := 114,
            YAxis := yaxis0\<lparr>Style := Style_zero\<lparr>Show := True\<rparr>,
                           Ticks := [tick 0 ''0'', tick 100 ''100.000000000'']\<rparr>\<rparr>"

text \<open>
  Labels centred on their ticks: the X axis measured as the canvas box grown by the
  label of each tick, the label 8 pixels a character wide, 12 high, below the box and
  centred on the tick's position in the range's pixel domain. The chart is 1010 pixels
  wide; its X axis is shown and has ticks at 0, 7 and 10, the middle one with a label
  of 100 characters.
\<close>

definition tick_position :: "ContinuousRange \<Rightarrow> Tick \<Rightarrow> int" where
  "tick_position r t =
     (case (Value t, MinR r, MaxR r) of
        (Fin v, Fin lo, Fin hi) \<Rightarrow> \<lfloor>(v - lo) / (hi - lo) * of_int (DomainR r)\<rfloor>
      | _ \<Rightarrow> 0)"

definition measure_centred :: "Box \<Rightarrow> ContinuousRange \<Rightarrow> Tick list \<Rightarrow> Box" where
  "measure_centred box r ts =
     fold (\<lambda>t b. Box_Grow b
                   \<lparr>Top = Bottom box,
                    Left = Left box + tick_position r t - 4 * int (length (Label t)),
                    Right = Left box + tick_position r t + 4 * int (length (Label t)),
                    Bottom = Bottom box + 12\<rparr>)
       ts box"

definition env_centred :: env where
  "env_centred = env0\<lparr>XAxis_Measure := (\<lambda>a box r s ts. measure_centred box r ts)\<rparr>"

definition chart_centred :: Chart where
  "chart_centred =
     chart0\<lparr>Width := 1010,
            XAxis := xaxis0\<lparr>Style := Style_zero\<lparr>Show := True\<rparr>,
                           Ticks := [tick 0 ''0'', tick 7 (replicate 100 (CHR ''x'')),
                                     tick 10 ''10'']\<rparr>\<rparr>"

text \<open>
  A caller's chart with an explicit X range object from 0 to 10 at address 0 and ticks at
  2 and 4 on the X axis; the range object at address 1 belongs to nothing in the chart.
\<close>

definition store_caller :: store where
  "store_caller =
     \<lparr>cells = (\<lambda>p. ContinuousRange_zero)
        (0 := \<lparr>MinR = Fin 0, MaxR = Fin 10, DomainR = 0\<rparr>,
         1 := \<lparr>MinR = Fin 3, MaxR = Fin 4, DomainR = 7\<rparr>),
      nxt = 2\<rparr>"

definition chart_caller :: Chart where
  "chart_caller =
     chart0\<lparr>XAxis := xaxis0\<lparr>Range_f := Some 0, Ticks := [tick 2 ''2'', tick 4 ''4'']\<rparr>\<rparr>"

text \<open>A chart with one point only, a chart without series.\<close>

definition chart_one_point :: Chart where
  "chart_one_point =
     chart0\<lparr>Series := [series0\<lparr>ValueProvider := Some [(Fin 1, Fin 5)]\<rparr>]\<rparr>"

definition chart_no_series :: Chart where
  "chart_no_series = chart0\<lparr>Series := []\<rparr>"

text \<open>
  A chart with a title, a shown X axis and a shown secondary Y axis, three series (the
  second hidden, the third on the secondary axis) and two overlay elements.
\<close>

definition chart_full :: Chart where
  "chart_full =
     chart0\<lparr>Title := ''T'', TitleStyle := Style_zero\<lparr>Show := True\<rparr>,
            XAxis := xaxis0\<lparr>Style := Style_zero\<lparr>Show := True\<rparr>\<rparr>,
            YAxisSecondary_c := yaxis0\<lparr>Style := Style_zero\<lparr>Show := True\<rparr>\<rparr>,
            Series := [series0,
                       series0\<lparr>GetStyle := Style_zero\<lparr>StrokeWidth := Fin 2\<rparr>\<rparr>,
                       series0\<lparr>GetYAxis := YAxisSecondary\<rparr>],
            Elements := [7, 8]\<rparr>"

text \<open>
  Two series with formatters: the first on the primary axis, the second on the
  secondary axis.
\<close>

definition fmt_a :: "float64 \<Rightarrow> string" where
  "fmt_a v = ''a''"

definition fmt_b :: "float64 \<Rightarrow> string" where
  "fmt_b v = ''b''"

definition chart_formatters :: Chart where
  "chart_formatters =
     chart0\<lparr>Series :=
              [series0\<lparr>ValueFormatterProvider := Some (Some fmt_a, Some fmt_a)\<rparr>,
               series0\<lparr>GetYAxis := YAxisSecondary,
                       ValueFormatterProvider := Some (Some fmt_b, Some fmt_b)\<rparr>]\<rparr>"

section \<open>Properties\<close>

subsection \<open>Evaluation of the examples\<close>

lemma MaxFloat64_large: "1000000000 < MaxFloat64"
proof -
  have "(2::real) ^ 971 * 2 \<le> 2 ^ 971 * 2 ^ 53" by simp
  then have "(2::real) ^ 972 \<le> 2 ^ 1024" by (simp add: power_add [symmetric])
  have a: "(2::real) ^ 1024 = 2 ^ 971 * 2 ^ 53" by (simp add: power_add [symmetric])
  have b: "(1000000000::real) < 2 ^ 971 * (2 ^ 53 - 1)"
  proof -
    have "(1000000000::real) < 2 ^ 53 - 1" by simp
    moreover have "(1::real) \<le> 2 ^ 971" by simp
    ultimately have "(1000000000::real) * 1 < (2 ^ 53 - 1) * 2 ^ 971"
      by (intro mult_less_le_imp_less) simp_all
    then show ?thesis by (simp add: mult.commute)
  qed
  show ?thesis unfolding MaxFloat64_def a using b by (simp add: algebra_simps)
qed

lemma OverflowThreshold_large: "MaxFloat64 < OverflowThreshold"
proof -
  have "(2::real) ^ 971 = 2 ^ 970 * 2" by (simp add: power_add [symmetric])
  moreover have "(0::real) < 2 ^ 970" by simp
  ultimately show ?thesis
    unfolding MaxFloat64_def OverflowThreshold_def by linarith
qed

lemma MaxFloat64_small:
  "x \<le> 1000000000 \<Longrightarrow> (MaxFloat64 < x) = False"
  "x \<le> 1000000000 \<Longrightarrow> (x < MaxFloat64) = True"
  "- 1000000000 \<le> x \<Longrightarrow> (x < - MaxFloat64) = False"
  "- 1000000000 \<le> x \<Longrightarrow> (- MaxFloat64 < x) = True"
  "x \<le> 1000000000 \<Longrightarrow> (OverflowThreshold \<le> x) = False"
  "- 1000000000 \<le> x \<Longrightarrow> (x \<le> - OverflowThreshold) = False"
  using MaxFloat64_large OverflowThreshold_large by simp_all

lemmas example_defs =
  env0_def rp_ok_def store0_def xaxis0_def yaxis0_def tick_def series0_def chart0_def
  chart_ticks_def store_flat_def chart_secondary_range_def store_xyz_def chart_two_series_def
  label_room_def env_wide_def chart_wide_def tick_position_def measure_centred_def
  env_centred_def chart_centred_def store_caller_def chart_caller_def chart_one_point_def
  chart_no_series_def chart_full_def chart_formatters_def

lemmas value_defs =
  Style_zero_def Box_zero_def ContinuousRange_zero_def extremes_init_def MaxFloat64_small
  math_Min_def math_Max_def math_IsInf_def math_IsNaN_def to_float64_def
  Box_Clone_def Box_Width_def Box_Height_def Box_Grow_def Box_OuterConstrain_def
  new_ContinuousRange_def GetMin_def GetMax_def GetDomain_def GetDelta_def IsZero_def
  SetMin_def SetMax_def SetDomain_def

lemmas chart_defs =
  GetDPI_def GetFont_def GetWidth_def GetHeight_def getRanges_def hasSecondarySeries_def
  checkRanges_def getValueFormatters_def styleDefaultsBackground_def styleDefaultsCanvas_def
  styleDefaultsSeries_def styleDefaultsAxes_def styleDefaultsElements_def
  getBackgroundStyle_def getCanvasStyle_def Chart_Box_def getDefaultCanvasBox_def
  hasAxes_def getAxesTicks_def getAxesAdjustedCanvasBox_def setRangeDomains_def
  hasAnnotationSeries_def getAnnotationAdjustedCanvasBox_def drawBackground_def
  drawCanvas_def drawAxes_def drawSeries_def drawTitle_def axesPass_def axesLayout_def
  layout_def Render_copy_def Render_ranges_def Render_layout_def Render_calls_def
  surface_and_font_def invalidDelta_def shown_def Let_def

subsection \<open>Render, stage by stage\<close>

lemma GetWidth_forced [simp]:
  "GetWidth E (c\<lparr>YAxisSecondary_c := y\<rparr>) = GetWidth E c"
  "GetHeight E (c\<lparr>YAxisSecondary_c := y\<rparr>) = GetHeight E c"
  by (simp_all add: GetWidth_def GetHeight_def)

lemma Render_no_surface:
  assumes "Series c0 \<noteq> []" and "rp (GetWidth E c0) (GetHeight E c0) = Some err"
  shows "fst (Render E c0 rp st0) = Some err"
  using assms by (simp add: Render_def Let_def)

lemma Render_no_font:
  assumes "Series c0 \<noteq> []" and "rp (GetWidth E c0) (GetHeight E c0) = None"
    and "Chart.Font c0 = None" and "GetDefaultFont E = Inl err"
  shows "fst (Render E c0 rp st0) = Some err"
  using assms by (simp add: Render_def Let_def)

lemma Render_past_check:
  assumes "Series c0 \<noteq> []" and "surface_and_font E c0 rp"
  shows "Render E c0 rp st0 =
    (case Render_ranges E c0 st0 of (xr, yr, yra, st2) \<Rightarrow>
    (case checkRanges (Render_copy E c0) xr yr yra st2 of
       Some err \<Rightarrow>
         (Some err, Render_copy E c0, st2,
          [NewRenderer (GetWidth E c0) (GetHeight E c0),
           SetDPI (GetDPI E (Render_copy E c0) [DefaultDPI E])]
          @ drawBackground E (Render_copy E c0) @ [SaveCall])
     | None \<Rightarrow>
         (case Render_layout E c0 st0 of
            ((xt, yt, yta), canvasBox, st3) \<Rightarrow>
              (Save E (Render_calls E (Render_copy E c0) xr yr yra xt yt yta canvasBox),
               Render_copy E c0, st3,
               Render_calls E (Render_copy E c0) xr yr yra xt yt yta canvasBox @ [SaveCall]))))"
proof -
  let ?c1 = "c0\<lparr>YAxisSecondary_c := (YAxisSecondary_c c0)\<lparr>AxisType := YAxisSecondary\<rparr>\<rparr>"
  have w: "GetWidth E ?c1 = GetWidth E c0" "GetHeight E ?c1 = GetHeight E c0"
    by (simp_all add: GetWidth_def GetHeight_def)
  have rp: "rp (GetWidth E c0) (GetHeight E c0) = None"
    using assms(2) by (simp add: surface_and_font_def)
  have font:
    "(if Chart.Font ?c1 = None then
        (case GetDefaultFont E of Inl err \<Rightarrow> Inl err
         | Inr defaultFont' \<Rightarrow> Inr (?c1\<lparr>defaultFont := defaultFont'\<rparr>))
      else Inr ?c1) = Inr (Render_copy E c0)"
    using assms(2)
    by (auto simp: surface_and_font_def Render_copy_def Let_def split: sum.splits if_splits)
  have len: "length (Series c0) \<noteq> 0" using assms(1) by simp
  have wc: "GetWidth E (Render_copy E c0) = GetWidth E c0"
    "GetHeight E (Render_copy E c0) = GetHeight E c0"
    by (simp_all add: GetWidth_def GetHeight_def Render_copy_def Let_def split: sum.splits)
  show ?thesis
    unfolding Render_def
    apply (simp only: len if_False Let_def w rp option.case font sum.case)
    apply (simp add: Render_ranges_def Render_layout_def Render_calls_def Let_def split_def wc
        split: option.splits)
    done
qed

lemma Render_success:
  assumes "fst (Render E c0 rp st0) = None"
  shows "Series c0 \<noteq> [] \<and> surface_and_font E c0 rp"
proof -
  have s: "Series c0 \<noteq> []"
    using assms by (auto simp: Render_def)
  have r: "rp (GetWidth E c0) (GetHeight E c0) = None"
  proof (cases "rp (GetWidth E c0) (GetHeight E c0)")
    case (Some err)
    from Render_no_surface [where rp = rp and E = E and ?c0.0 = c0 and err = err and ?st0.0 = st0]
      s Some assms
    show ?thesis by simp
  qed simp
  have f: "Chart.Font c0 = None \<Longrightarrow> \<not> isl (GetDefaultFont E)"
  proof
    assume n: "Chart.Font c0 = None" and "isl (GetDefaultFont E)"
    then obtain err where "GetDefaultFont E = Inl err" by (cases "GetDefaultFont E") auto
    from Render_no_font [where rp = rp and E = E and ?c0.0 = c0 and err = err and ?st0.0 = st0]
      s r n this assms
    show False by simp
  qed
  from s r f show ?thesis by (simp add: surface_and_font_def)
qed

subsection \<open>No series\<close>

text \<open>
  C6: for a chart with an empty series list \<open>Render\<close> returns the configuration error
  and has made no call: the provider is not asked for a drawing surface, nothing is
  drawn and \<open>Save\<close>, the one call that writes to the output sink, is not made. The
  store of range objects is as it was.
\<close>

theorem Render_no_series:
  "Series c0 = [] \<Longrightarrow>
   Render E c0 rp st0 = (Some (Error ''Please provide at least one series''), c0, st0, [])"
  by (simp add: Render_def)

theorem Render_no_series_witness:
  "Series chart_no_series = []
   \<and> Render env0 chart_no_series rp_ok store0
       = (Some (Error ''Please provide at least one series''), chart_no_series, store0, [])"
proof -
  have h: "Series chart_no_series = []"
    by (simp add: chart_no_series_def chart0_def)
  from h Render_no_series [OF h] show ?thesis by simp
qed

subsection \<open>A rejected range\<close>

text \<open>
  C5: when \<open>checkRanges\<close> rejects the resolved ranges, \<open>Render\<close> returns that range
  error, and the calls it has made are the acquisition of the surface, \<open>SetDPI\<close>, the
  background fill over the whole surface and, last, \<open>Save\<close>: the background has been
  drawn and the surface is serialised to the sink before the error is returned.
\<close>

theorem Render_range_error:
  assumes "Series c0 \<noteq> []" and "surface_and_font E c0 rp"
    and "Render_ranges E c0 st0 = (xr, yr, yra, st2)"
    and "checkRanges (Render_copy E c0) xr yr yra st2 = Some err"
  shows "Render E c0 rp st0 =
     (Some err, Render_copy E c0, st2,
      [NewRenderer (GetWidth E c0) (GetHeight E c0),
       SetDPI (GetDPI E (Render_copy E c0) [DefaultDPI E]),
       DrawBox \<lparr>Top = 0, Left = 0, Right = GetWidth E c0, Bottom = GetHeight E c0\<rparr>
         (getBackgroundStyle E (Render_copy E c0)),
       SaveCall])"
proof -
  have wc: "GetWidth E (Render_copy E c0) = GetWidth E c0"
    "GetHeight E (Render_copy E c0) = GetHeight E c0"
    by (simp_all add: GetWidth_def GetHeight_def Render_copy_def Let_def split: sum.splits)
  show ?thesis
    using assms(3,4)
    by (simp add: Render_past_check [OF assms(1,2)] drawBackground_def Box_zero_def wc)
qed

theorem Render_range_error_witness:
  "Series chart_one_point \<noteq> [] \<and> surface_and_font env0 chart_one_point rp_ok
   \<and> (case Render_ranges env0 chart_one_point store0 of
        (xr, yr, yra, st2) \<Rightarrow>
          checkRanges (Render_copy env0 chart_one_point) xr yr yra st2
            = Some (Error ''Invalid (infinite or NaN) x-range delta''))
   \<and> fst (Render env0 chart_one_point rp_ok store0)
        = Some (Error ''Invalid (infinite or NaN) x-range delta'')
   \<and> snd (snd (snd (Render env0 chart_one_point rp_ok store0)))
        = [NewRenderer 1024 400, SetDPI (Fin 92),
           DrawBox \<lparr>Top = 0, Left = 0, Right = 1024, Bottom = 400\<rparr>
             (getBackgroundStyle env0 (Render_copy env0 chart_one_point)),
           SaveCall]"
proof -
  obtain xr yr yra st2 where
    r: "Render_ranges env0 chart_one_point store0 = (xr, yr, yra, st2)"
    by (metis prod.exhaust)
  have h1: "Series chart_one_point \<noteq> []"
    by (simp add: chart_one_point_def chart0_def)
  have h2: "surface_and_font env0 chart_one_point rp_ok"
    by (simp add: surface_and_font_def rp_ok_def env0_def)
  have "case Render_ranges env0 chart_one_point store0 of
          (xr, yr, yra, st2) \<Rightarrow>
            checkRanges (Render_copy env0 chart_one_point) xr yr yra st2
              = Some (Error ''Invalid (infinite or NaN) x-range delta'')"
    by (simp add: example_defs value_defs chart_defs)
  then have h3: "checkRanges (Render_copy env0 chart_one_point) xr yr yra st2
              = Some (Error ''Invalid (infinite or NaN) x-range delta'')"
    by (simp add: r)
  have w: "GetWidth env0 chart_one_point = 1024" "GetHeight env0 chart_one_point = 400"
    "GetDPI env0 (Render_copy env0 chart_one_point) [DefaultDPI env0] = Fin 92"
    by (simp_all add: example_defs chart_defs)
  from Render_range_error [OF h1 h2 r h3] h1 h2 h3 r w show ?thesis by simp
qed


subsection \<open>Explicit ticks\<close>

lemma getRanges_secondary_bounds:
  assumes "0 < length (Ticks (YAxisSecondary_c c))"
    and "getRanges E c st = (xr, yr, yra, st')"
  shows "(GetMin yra st', GetMax yra st')
           = tickBounds (Ticks (YAxis c)) (Fin MaxFloat64, Fin (- MaxFloat64))"
  using assms
  by (auto simp: getRanges_def Let_def split_def GetMin_def GetMax_def SetMin_def SetMax_def)

text \<open>
  C1: an axis with explicit ticks should get the smallest and the largest value of its
  own tick list as its range. For the secondary Y axis the loop of line 254 runs over
  the ticks of the primary Y axis: with ticks 1 and 2 on the primary axis and 0, 50 and
  100 on the secondary axis, the secondary range \<open>getRanges\<close> resolves is from 1 to 2,
  not from 0 to 100.
\<close>

theorem getRanges_secondary_ticks:
  "(case getRanges env0 chart_ticks store0 of
      (xr, yr, yra, st) \<Rightarrow> GetMin yra st = Fin 1 \<and> GetMax yra st = Fin 2)
   \<and> map Value (Ticks (YAxisSecondary_c chart_ticks)) = [Fin 0, Fin 50, Fin 100]"
  by (simp add: example_defs value_defs chart_defs)

subsection \<open>The secondary range check\<close>

lemma hasSecondarySeries_iff:
  "hasSecondarySeries c = (\<exists>s \<in> set (Series c). GetYAxis s = YAxisSecondary)"
proof -
  have "hasSecondarySeries_loop ss = (\<exists>s \<in> set ss. GetYAxis s = YAxisSecondary)" for ss
    by (induction ss) auto
  then show ?thesis by (simp add: hasSecondarySeries_def)
qed

text \<open>
  C2, as amended: \<open>checkRanges\<close> validates the secondary Y range (it returns the
  secondary range error when the X and Y deltas are valid and the secondary delta is
  zero, infinite or NaN) when at least one shown series targets the secondary axis; and
  when no series of the list targets the secondary axis, the secondary range is not
  looked at, whether an explicit secondary-axis configuration is present or not: with
  valid X and Y deltas \<open>checkRanges\<close> accepts.
\<close>

theorem checkRanges_secondary:
  "((\<exists>s \<in> set (Series c). shown E s \<and> GetYAxis s = YAxisSecondary)
      \<and> \<not> invalidDelta (GetDelta xr st) \<and> \<not> invalidDelta (GetDelta yr st)
      \<and> invalidDelta (GetDelta yra st)
     \<longrightarrow> checkRanges c xr yr yra st
          = Some (Error ''Invalid (infinite or NaN) y-secondary-range delta''))
   \<and> ((\<forall>s \<in> set (Series c). GetYAxis s \<noteq> YAxisSecondary)
      \<and> \<not> invalidDelta (GetDelta xr st) \<and> \<not> invalidDelta (GetDelta yr st)
     \<longrightarrow> checkRanges c xr yr yra st = None)"
  by (auto simp: checkRanges_def invalidDelta_def hasSecondarySeries_iff)

theorem checkRanges_secondary_witness:
  "(\<exists>s \<in> set (Series chart_two_series). shown env0 s \<and> GetYAxis s = YAxisSecondary)
   \<and> map GetYAxis (Series chart0) = [YAxisPrimary]
   \<and> \<not> invalidDelta (GetDelta 0 store_xyz) \<and> \<not> invalidDelta (GetDelta 1 store_xyz)
   \<and> invalidDelta (GetDelta 2 store_xyz)
   \<and> checkRanges chart_two_series 0 1 2 store_xyz
        = Some (Error ''Invalid (infinite or NaN) y-secondary-range delta'')
   \<and> checkRanges chart0 0 1 2 store_xyz = None"
proof -
  have a: "\<exists>s \<in> set (Series chart_two_series). shown env0 s \<and> GetYAxis s = YAxisSecondary"
    by (simp add: example_defs shown_def Style_zero_def)
  have b: "\<forall>s \<in> set (Series chart0). GetYAxis s \<noteq> YAxisSecondary"
    by (simp add: example_defs)
  have m: "map GetYAxis (Series chart0) = [YAxisPrimary]"
    by (simp add: example_defs)
  have d: "\<not> invalidDelta (GetDelta 0 store_xyz)" "\<not> invalidDelta (GetDelta 1 store_xyz)"
    "invalidDelta (GetDelta 2 store_xyz)"
    by (simp_all add: store_xyz_def invalidDelta_def value_defs)
  from checkRanges_secondary [of chart_two_series env0 0 store_xyz 1 2]
    checkRanges_secondary [of chart0 env0 0 store_xyz 1 2] a b d m
  show ?thesis by simp
qed

text \<open>
  The claim as stated asks for validation also when an explicit secondary-axis
  configuration is present. Here the secondary axis is shown and has an explicit range
  from 5 to 5, no series targets it: its delta is zero, \<open>checkRanges\<close> accepts and
  \<open>Render\<close> succeeds.
\<close>

theorem checkRanges_explicit_secondary_counterexample:
  "Range_f (YAxisSecondary_c chart_secondary_range) = Some 0
   \<and> Show (Style (YAxisSecondary_c chart_secondary_range))
   \<and> (case Render_ranges env0 chart_secondary_range store_flat of
        (xr, yr, yra, st) \<Rightarrow>
          yra = 0 \<and> GetMin yra st = Fin 5 \<and> GetMax yra st = Fin 5
          \<and> invalidDelta (GetDelta yra st)
          \<and> checkRanges (Render_copy env0 chart_secondary_range) xr yr yra st = None)
   \<and> fst (Render env0 chart_secondary_range rp_ok store_flat) = None"
proof -
  have h1: "Series chart_secondary_range \<noteq> []"
    by (simp add: example_defs)
  have h2: "surface_and_font env0 chart_secondary_range rp_ok"
    by (simp add: surface_and_font_def rp_ok_def env0_def)
  have r: "case Render_ranges env0 chart_secondary_range store_flat of
        (xr, yr, yra, st) \<Rightarrow>
          yra = 0 \<and> GetMin yra st = Fin 5 \<and> GetMax yra st = Fin 5
          \<and> invalidDelta (GetDelta yra st)
          \<and> checkRanges (Render_copy env0 chart_secondary_range) xr yr yra st = None"
    by (simp add: example_defs value_defs chart_defs)
  have sv: "Save env0 l = None" for l
    by (simp add: env0_def)
  have "fst (Render env0 chart_secondary_range rp_ok store_flat) = None"
    using r
    by (auto simp: Render_past_check [OF h1 h2] sv split: prod.splits)
  with r show ?thesis by (simp add: example_defs)
qed

subsection \<open>Value formatters\<close>

lemma getValueFormatters_loop_x:
  "fst (getValueFormatters_loop ss (x, y, ya)) =
     (let ps = filter (\<lambda>s. ValueFormatterProvider s \<noteq> None) ss
      in if ps = [] then x else fst (the (ValueFormatterProvider (last ps))))"
proof (induction ss arbitrary: x y ya)
  case Nil
  show ?case by simp
next
  case (Cons s ss)
  show ?case
  proof (cases "ValueFormatterProvider s")
    case None
    then show ?thesis using Cons.IH [of x y ya] by simp
  next
    case (Some p)
    obtain sx sy where p: "p = (sx, sy)" by (cases p)
    show ?thesis
    proof (cases "GetYAxis s")
      case YAxisPrimary
      then show ?thesis using Some p Cons.IH [of sx sy ya] by (simp add: Let_def)
    next
      case YAxisSecondary
      then show ?thesis using Some p Cons.IH [of sx y sy] by (simp add: Let_def)
    qed
  qed
qed

text \<open>
  C10: the X formatter \<open>getValueFormatters\<close> returns is the explicit formatter of the X
  axis when there is one; otherwise it is the X formatter of the last series of the
  list that provides value formatters, whichever Y axis that series targets (and nil
  when no series provides formatters).
\<close>

theorem getValueFormatters_x:
  "fst (getValueFormatters c) =
     (if ValueFormatter (XAxis c) \<noteq> None then ValueFormatter (XAxis c)
      else (let ps = filter (\<lambda>s. ValueFormatterProvider s \<noteq> None) (Series c)
            in if ps = [] then None else fst (the (ValueFormatterProvider (last ps)))))"
proof -
  obtain x y ya where l: "getValueFormatters_loop (Series c) (None, None, None) = (x, y, ya)"
    by (metis prod.exhaust)
  from getValueFormatters_loop_x [of "Series c" None None None] l
  have "x = (let ps = filter (\<lambda>s. ValueFormatterProvider s \<noteq> None) (Series c)
             in if ps = [] then None else fst (the (ValueFormatterProvider (last ps))))"
    by simp
  then show ?thesis by (simp add: getValueFormatters_def l Let_def)
qed

text \<open>
  A later series on the secondary axis overwrites the X formatter of an earlier series
  on the primary axis; the formatter of the X axis overrides both.
\<close>

lemma getValueFormatters_x_example:
  "fst (getValueFormatters chart_formatters) = Some fmt_b
   \<and> fst (getValueFormatters (chart_formatters\<lparr>XAxis := xaxis0\<lparr>ValueFormatter := Some fmt_a\<rparr>\<rparr>))
       = Some fmt_a"
  by (simp add: getValueFormatters_def example_defs Let_def)


subsection \<open>The order of the calls\<close>

lemma secondary_if_not_primary: "a \<noteq> YAxisPrimary \<Longrightarrow> a = YAxisSecondary"
  by (cases a) simp_all

lemma drawSeries_loop_map:
  "drawSeries_loop E c box xr yr yra (int k) ss =
     map (\<lambda>(i, s). SeriesRender s box xr (if GetYAxis s = YAxisPrimary then yr else yra)
                      (styleDefaultsSeries E c (int i)))
         (filter (\<lambda>(i, s). shown E s) (enumerate k ss))"
proof (induction ss arbitrary: k)
  case Nil
  show ?case by simp
next
  case (Cons s ss)
  have IH: "drawSeries_loop E c box xr yr yra (int k + 1) ss =
     map (\<lambda>(i, s). SeriesRender s box xr (if GetYAxis s = YAxisPrimary then yr else yra)
                      (styleDefaultsSeries E c (int i)))
         (filter (\<lambda>(i, s). shown E s) (enumerate (Suc k) ss))"
    using Cons.IH [of "Suc k"] by (simp add: add.commute)
  show ?case
    by (auto simp: IH drawSeries_def shown_def dest: secondary_if_not_primary)
qed

lemma drawElements_map:
  "drawElements E c box as = map (\<lambda>a. ElementCall a box (styleDefaultsElements E c)) as"
  by (induction as) simp_all

lemma Render_finished:
  assumes "Render E c0 rp st0 = (None, c, st, calls)"
    and "Render_ranges E c0 st0 = (xr, yr, yra, st2)"
    and "Render_layout E c0 st0 = ((xt, yt, yta), canvasBox, st3)"
  shows "c = Render_copy E c0 \<and> st = st3
         \<and> checkRanges c xr yr yra st2 = None
         \<and> calls = Render_calls E c xr yr yra xt yt yta canvasBox @ [SaveCall]"
proof -
  from assms(1) have "fst (Render E c0 rp st0) = None" by simp
  from Render_success [OF this] have s: "Series c0 \<noteq> []" "surface_and_font E c0 rp"
    by simp_all
  from assms show ?thesis
    by (auto simp: Render_past_check [OF s] split: option.splits)
qed

text \<open>
  C8: the calls of a successful render are, in this order: the acquisition of the
  surface and \<open>SetDPI\<close>, the background fill, the fill of the canvas box, the axes that
  are shown (X, Y, secondary Y), each shown series in the order of the series list, with
  the primary or the secondary Y range by its axis tag, the title calls when the title
  is not empty and its style is shown, the overlay elements in their order, and last
  \<open>Save\<close>.
\<close>

theorem Render_draw_order:
  assumes "Render E c0 rp st0 = (None, c, st, calls)"
    and "Render_ranges E c0 st0 = (xr, yr, yra, st2)"
    and "Render_layout E c0 st0 = ((xt, yt, yta), canvasBox, st3)"
  shows "\<exists>titleX titleY.
           calls = spec_draw_order E c xr yr yra xt yt yta canvasBox titleX titleY"
proof -
  from Render_finished [OF assms]
  have calls: "calls = Render_calls E c xr yr yra xt yt yta canvasBox @ [SaveCall]"
    by simp
  have ser: "drawSeries_loop E c canvasBox xr yr yra 0 (Series c) =
     map (\<lambda>(i, s). SeriesRender s canvasBox xr
                        (if GetYAxis s = YAxisPrimary then yr else yra)
                        (styleDefaultsSeries E c (int i)))
           (filter (\<lambda>(i, s). shown E s) (enumerate 0 (Series c)))"
    using drawSeries_loop_map [of E c canvasBox xr yr yra 0 "Series c"] by simp
  show ?thesis
  proof (cases "Title c \<noteq> [] \<and> Show (TitleStyle c)")
    case True
    then show ?thesis
      unfolding calls Render_calls_def spec_draw_order_def
      by (simp add: Let_def drawBackground_def drawCanvas_def drawAxes_def drawTitle_def
          drawElements_map ser Box_zero_def)
  next
    case False
    then show ?thesis
      unfolding calls Render_calls_def spec_draw_order_def
      by (auto simp: Let_def drawBackground_def drawCanvas_def drawAxes_def drawTitle_def
          drawElements_map ser Box_zero_def)
  qed
qed


lemma Save_env0 [simp]: "Save env0 l = None"
  by (simp add: env0_def)

lemma surface_and_font_env0 [simp]: "surface_and_font env0 c rp_ok"
  by (simp add: surface_and_font_def rp_ok_def env0_def)

lemma full_ranges:
  "case Render_ranges env0 chart_full store0 of
     (xr, yr, yra, st2) \<Rightarrow>
       xr = 0 \<and> yr = 1 \<and> yra = 2
       \<and> checkRanges (Render_copy env0 chart_full) xr yr yra st2 = None"
  by (simp add: example_defs value_defs chart_defs)

lemma full_layout:
  "case Render_layout env0 chart_full store0 of
     (ts, canvasBox, st3) \<Rightarrow>
       ts = ([], [], []) \<and> canvasBox = \<lparr>Top = 5, Left = 5, Right = 1019, Bottom = 395\<rparr>"
  by (simp add: example_defs value_defs chart_defs)

theorem Render_draw_order_witness:
  "fst (Render env0 chart_full rp_ok store0) = None
   \<and> (\<exists>titleX titleY.
         snd (snd (snd (Render env0 chart_full rp_ok store0)))
           = spec_draw_order env0 (Render_copy env0 chart_full) 0 1 2 [] [] []
               \<lparr>Top = 5, Left = 5, Right = 1019, Bottom = 395\<rparr> titleX titleY)"
proof -
  obtain xr yr yra st2 where r: "Render_ranges env0 chart_full store0 = (xr, yr, yra, st2)"
    by (metis prod.exhaust)
  obtain xt yt yta canvasBox st3 where
    l: "Render_layout env0 chart_full store0 = ((xt, yt, yta), canvasBox, st3)"
    by (metis prod.exhaust)
  from full_ranges r have rv: "xr = 0" "yr = 1" "yra = 2"
    and ck: "checkRanges (Render_copy env0 chart_full) xr yr yra st2 = None"
    by auto
  from full_layout l have lv: "xt = []" "yt = []" "yta = []"
    "canvasBox = \<lparr>Top = 5, Left = 5, Right = 1019, Bottom = 395\<rparr>"
    by simp_all
  have s: "Series chart_full \<noteq> []"
    by (simp add: chart_full_def chart0_def)
  obtain err c st calls where R: "Render env0 chart_full rp_ok store0 = (err, c, st, calls)"
    by (metis prod.exhaust)
  have e: "err = None"
    using R r l ck by (simp add: Render_past_check [OF s surface_and_font_env0])
  have c: "c = Render_copy env0 chart_full"
    using R r l ck by (simp add: Render_past_check [OF s surface_and_font_env0])
  from Render_draw_order [OF R [unfolded e] r l] R e c rv lv show ?thesis
    by simp
qed

text \<open>The order on the example: the hidden second series is not drawn.\<close>

lemma spec_draw_order_example:
  "spec_draw_order env0 (Render_copy env0 chart_full) 0 1 2 [] [] []
     \<lparr>Top = 5, Left = 5, Right = 1019, Bottom = 395\<rparr> 508 22 =
   [NewRenderer 1024 400, SetDPI (Fin 92),
    DrawBox \<lparr>Top = 0, Left = 0, Right = 1024, Bottom = 400\<rparr>
      (getBackgroundStyle env0 (Render_copy env0 chart_full)),
    DrawBox \<lparr>Top = 5, Left = 5, Right = 1019, Bottom = 395\<rparr>
      (getCanvasStyle env0 (Render_copy env0 chart_full)),
    XAxisRender (xaxis0\<lparr>Style := Style_zero\<lparr>Show := True\<rparr>\<rparr>)
      \<lparr>Top = 5, Left = 5, Right = 1019, Bottom = 395\<rparr> 0
      (styleDefaultsAxes env0 (Render_copy env0 chart_full)) [],
    YAxisRender (yaxis0\<lparr>Style := Style_zero\<lparr>Show := True\<rparr>, AxisType := YAxisSecondary\<rparr>)
      \<lparr>Top = 5, Left = 5, Right = 1019, Bottom = 395\<rparr> 2
      (styleDefaultsAxes env0 (Render_copy env0 chart_full)) [],
    SeriesRender series0 \<lparr>Top = 5, Left = 5, Right = 1019, Bottom = 395\<rparr> 0 1
      (styleDefaultsSeries env0 (Render_copy env0 chart_full) 0),
    SeriesRender (series0\<lparr>GetYAxis := YAxisSecondary\<rparr>)
      \<lparr>Top = 5, Left = 5, Right = 1019, Bottom = 395\<rparr> 0 2
      (styleDefaultsSeries env0 (Render_copy env0 chart_full) 2),
    SetFont (Some 1), SetFontColor 1, SetFontSize (Fin 18), MeasureTextCall ''T'',
    Text ''T'' 508 22,
    ElementCall 7 \<lparr>Top = 5, Left = 5, Right = 1019, Bottom = 395\<rparr>
      (styleDefaultsElements env0 (Render_copy env0 chart_full)),
    ElementCall 8 \<lparr>Top = 5, Left = 5, Right = 1019, Bottom = 395\<rparr>
      (styleDefaultsElements env0 (Render_copy env0 chart_full)),
    SaveCall]"
  by (simp add: spec_draw_order_def example_defs value_defs chart_defs enumerate_eq_zip upt_rec)

subsection \<open>A collapsed canvas box\<close>

text \<open>
  C3, as amended: \<open>Render\<close> has no layout error. On every input that passes the range
  check and on which the layout produces a canvas box of non-positive width or height,
  \<open>Render\<close> fills that box as the canvas, goes on drawing and returns what the final
  \<open>Save\<close> returns.
\<close>

theorem Render_collapsed_box:
  assumes "Series c0 \<noteq> []" and "surface_and_font E c0 rp"
    and "Render_ranges E c0 st0 = (xr, yr, yra, st2)"
    and "checkRanges (Render_copy E c0) xr yr yra st2 = None"
    and "Render_layout E c0 st0 = (ts, canvasBox, st3)"
    and "Box_Width canvasBox \<le> 0 \<or> Box_Height canvasBox \<le> 0"
  shows "\<exists>calls. Render E c0 rp st0 = (Save E calls, Render_copy E c0, st3, calls @ [SaveCall])
           \<and> DrawBox canvasBox (getCanvasStyle E (Render_copy E c0)) \<in> set calls"
proof -
  obtain xt yt yta where ts: "ts = (xt, yt, yta)" by (cases ts)
  have "DrawBox canvasBox (getCanvasStyle E (Render_copy E c0))
          \<in> set (Render_calls E (Render_copy E c0) xr yr yra xt yt yta canvasBox)"
    by (simp add: Render_calls_def Let_def drawCanvas_def)
  then show ?thesis
    using assms(3-5) by (simp add: Render_past_check [OF assms(1,2)] ts)
qed

lemma wide_ranges:
  "case Render_ranges env_wide chart_wide store0 of
     (xr, yr, yra, st2) \<Rightarrow> checkRanges (Render_copy env_wide chart_wide) xr yr yra st2 = None"
  by (simp add: example_defs value_defs chart_defs)

lemma wide_layout:
  "case Render_layout env_wide chart_wide store0 of
     (ts, canvasBox, st3) \<Rightarrow> canvasBox = \<lparr>Top = 5, Left = 109, Right = 109, Bottom = 109\<rparr>"
  by (simp add: example_defs value_defs chart_defs)

lemma env_wide_simps [simp]: "Save env_wide l = None" "surface_and_font env_wide c rp_ok"
  by (simp_all add: env_wide_def env0_def surface_and_font_def rp_ok_def)

theorem Render_collapsed_box_witness:
  "Series chart_wide \<noteq> [] \<and> surface_and_font env_wide chart_wide rp_ok
   \<and> (case Render_ranges env_wide chart_wide store0 of
         (xr, yr, yra, st2) \<Rightarrow>
           checkRanges (Render_copy env_wide chart_wide) xr yr yra st2 = None)
   \<and> fst (snd (Render_layout env_wide chart_wide store0))
        = \<lparr>Top = 5, Left = 109, Right = 109, Bottom = 109\<rparr>
   \<and> Box_Width \<lparr>Top = 5, Left = 109, Right = 109, Bottom = 109\<rparr> \<le> 0
   \<and> (\<exists>calls. fst (Render env_wide chart_wide rp_ok store0) = Save env_wide calls
         \<and> snd (snd (snd (Render env_wide chart_wide rp_ok store0))) = calls @ [SaveCall]
         \<and> DrawBox \<lparr>Top = 5, Left = 109, Right = 109, Bottom = 109\<rparr>
              (getCanvasStyle env_wide (Render_copy env_wide chart_wide)) \<in> set calls)"
proof -
  obtain xr yr yra st2 where r: "Render_ranges env_wide chart_wide store0 = (xr, yr, yra, st2)"
    by (metis prod.exhaust)
  obtain ts canvasBox st3 where
    l: "Render_layout env_wide chart_wide store0 = (ts, canvasBox, st3)"
    by (metis prod.exhaust)
  from wide_ranges r
  have ck: "checkRanges (Render_copy env_wide chart_wide) xr yr yra st2 = None"
    by simp
  from wide_layout l
  have b: "canvasBox = \<lparr>Top = 5, Left = 109, Right = 109, Bottom = 109\<rparr>"
    by simp
  have s: "Series chart_wide \<noteq> []"
    by (simp add: chart_wide_def chart0_def)
  have w: "Box_Width canvasBox \<le> 0 \<or> Box_Height canvasBox \<le> 0"
    by (simp add: b Box_Width_def)
  from Render_collapsed_box [OF s env_wide_simps(2) r ck l w] s r ck l b wide_ranges
  show ?thesis
    by (auto simp: Box_Width_def)
qed

text \<open>
  The claim as stated fails here: a tick label of 13 characters needs 104 pixels, the
  chart's bounds are 104 pixels wide, the canvas box ends with width 0, and \<open>Render\<close>
  draws into it and returns nil.
\<close>

theorem Render_collapsed_box_counterexample:
  "fst (snd (Render_layout env_wide chart_wide store0))
     = \<lparr>Top = 5, Left = 109, Right = 109, Bottom = 109\<rparr>
   \<and> Box_Width \<lparr>Top = 5, Left = 109, Right = 109, Bottom = 109\<rparr> = 0
   \<and> fst (Render env_wide chart_wide rp_ok store0) = None
   \<and> DrawBox \<lparr>Top = 5, Left = 109, Right = 109, Bottom = 109\<rparr>
        (getCanvasStyle env_wide (Render_copy env_wide chart_wide))
       \<in> set (snd (snd (snd (Render env_wide chart_wide rp_ok store0))))"
proof -
  obtain xr yr yra st2 where r: "Render_ranges env_wide chart_wide store0 = (xr, yr, yra, st2)"
    by (metis prod.exhaust)
  obtain ts canvasBox st3 where
    l: "Render_layout env_wide chart_wide store0 = (ts, canvasBox, st3)"
    by (metis prod.exhaust)
  obtain xt yt yta where ts: "ts = (xt, yt, yta)" by (cases ts)
  from wide_ranges r
  have ck: "checkRanges (Render_copy env_wide chart_wide) xr yr yra st2 = None"
    by simp
  from wide_layout l
  have b: "canvasBox = \<lparr>Top = 5, Left = 109, Right = 109, Bottom = 109\<rparr>"
    by simp
  have s: "Series chart_wide \<noteq> []"
    by (simp add: chart_wide_def chart0_def)
  show ?thesis
    using r l ck b ts
    by (simp add: Render_past_check [OF s env_wide_simps(2)] Box_Width_def
        Render_calls_def Let_def drawCanvas_def)
qed


subsection \<open>The axis passes\<close>


























subsection \<open>What Render writes\<close>

lemma setter_cells:
  "q \<noteq> p \<Longrightarrow> cells (SetMin p v st) q = cells st q"
  "q \<noteq> p \<Longrightarrow> cells (SetMax p v st) q = cells st q"
  "q \<noteq> p \<Longrightarrow> cells (SetDomain p d st) q = cells st q"
  "nxt (SetMin p v st) = nxt st"
  "nxt (SetMax p v st) = nxt st"
  by (simp_all add: SetMin_def SetMax_def SetDomain_def)




lemma setRangeDomains_cells:
  assumes "q \<noteq> xr" "q \<noteq> yr" "q \<noteq> yra"
  shows "cells (snd (snd (snd (setRangeDomains b xr yr yra s)))) q = cells s q"
  using assms by (simp add: setRangeDomains_def setter_cells)



lemma axis_ranges_copy [simp]: "axis_ranges (Render_copy E c0) = axis_ranges c0"
  by (simp add: axis_ranges_def Render_copy_def Let_def split: sum.splits)











end
